theory Spec2Isabelle
  imports Main "HOL-Library.AList"
begin

section \<open>JavaScript values\<close>

text \<open>
  The client of \<^verbatim>\<open>src/index.js\<close> is dynamically typed: every argument of an endpoint
  method may be any JavaScript value. The values that matter to the program are modelled
  by \<open>jsval\<close>. A Number is an integer here, of a magnitude that JavaScript prints in
  decimal (fractions, NaN and the infinities are left out); a string is a list of characters; an array is the list of its elements; an
  object is the list of its own enumerable properties in the order \<^verbatim>\<open>Object.entries\<close>
  walks them.
\<close>

datatype jsval =
    Undefined
  | Null
  | JBool bool
  | JNum int
  | JStr string
  | JArr "jsval list"
  | JObj "(string \<times> jsval) list"

text \<open>What a \<^verbatim>\<open>throw\<close> carries: a value of the program, or the \<^verbatim>\<open>TypeError\<close>
  the engine raises when a property of \<^verbatim>\<open>undefined\<close> or \<^verbatim>\<open>null\<close> is read.\<close>

datatype js_throw = Thrown jsval | TypeError

text \<open>\<^verbatim>\<open>Boolean(x)\<close>: the falsy values are \<^verbatim>\<open>undefined\<close>, \<^verbatim>\<open>null\<close>, \<^verbatim>\<open>false\<close>,
  \<^verbatim>\<open>0\<close> and the empty string; arrays and objects are truthy, also when empty.\<close>

fun truthy :: "jsval \<Rightarrow> bool" where
  "truthy Undefined = False"
| "truthy Null = False"
| "truthy (JBool b) = b"
| "truthy (JNum n) = (n \<noteq> 0)"
| "truthy (JStr s) = (s \<noteq> [])"
| "truthy (JArr xs) = True"
| "truthy (JObj ps) = True"

text \<open>\<^verbatim>\<open>a || b\<close>.\<close>

definition js_or :: "jsval \<Rightarrow> jsval \<Rightarrow> jsval" where
  "js_or a b = (if truthy a then a else b)"

text \<open>A parameter default \<^verbatim>\<open>(x = d)\<close> applies when the argument is \<^verbatim>\<open>undefined\<close>,
  which is also what an omitted argument is; \<^verbatim>\<open>null\<close> does not trigger it.\<close>

definition default_arg :: "jsval \<Rightarrow> jsval \<Rightarrow> jsval" where
  "default_arg x d = (if x = Undefined then d else x)"

subsection \<open>Conversion to string\<close>

definition digit_char :: "nat \<Rightarrow> char" where
  "digit_char d = char_of (48 + d)"

fun show_nat :: "nat \<Rightarrow> string" where
  "show_nat n = (if n < 10 then [digit_char n] else show_nat (n div 10) @ [digit_char (n mod 10)])"

declare show_nat.simps [simp del]

definition show_int :: "int \<Rightarrow> string" where
  "show_int i = (if i < 0 then CHR ''-'' # show_nat (nat (- i)) else show_nat (nat i))"

text \<open>
  \<open>to_string\<close> is the conversion a template literal and \<^verbatim>\<open>"Bearer " + x\<close> apply;
  on an array it is \<^verbatim>\<open>join(",")\<close>, modelled by \<open>join_comma\<close>, which writes an
  \<^verbatim>\<open>undefined\<close> or \<^verbatim>\<open>null\<close> element as the empty string and any other element by
  \<open>to_string\<close>. A plain object prints as \<^verbatim>\<open>[object Object]\<close>.
\<close>

fun to_string :: "jsval \<Rightarrow> string"
  and join_comma :: "jsval list \<Rightarrow> string"
  and join_elem :: "jsval \<Rightarrow> string" where
  "to_string Undefined = ''undefined''"
| "to_string Null = ''null''"
| "to_string (JBool b) = (if b then ''true'' else ''false'')"
| "to_string (JNum n) = show_int n"
| "to_string (JStr s) = s"
| "to_string (JArr xs) = join_comma xs"
| "to_string (JObj ps) = ''[object Object]''"
| "join_comma [] = []"
| "join_comma [x] = join_elem x"
| "join_comma (x # y # ys) = join_elem x @ '','' @ join_comma (y # ys)"
| "join_elem Undefined = []"
| "join_elem Null = []"
| "join_elem (JBool b) = to_string (JBool b)"
| "join_elem (JNum n) = to_string (JNum n)"
| "join_elem (JStr s) = to_string (JStr s)"
| "join_elem (JArr xs) = to_string (JArr xs)"
| "join_elem (JObj ps) = to_string (JObj ps)"

subsection \<open>Property reads and enumeration\<close>

text \<open>
  \<open>get_prop v k\<close> is the read \<^verbatim>\<open>v.k\<close> for the property names this program reads
  (\<^verbatim>\<open>response\<close>, \<^verbatim>\<open>data\<close>, \<^verbatim>\<open>error\<close>). None of them is defined on a built-in
  prototype, so on a primitive or an array the read gives \<^verbatim>\<open>undefined\<close>, on an object
  it gives the own property or \<^verbatim>\<open>undefined\<close>, and on \<^verbatim>\<open>undefined\<close> and \<^verbatim>\<open>null\<close> the
  engine throws a TypeError.
\<close>

fun get_prop :: "jsval \<Rightarrow> string \<Rightarrow> js_throw + jsval" where
  "get_prop Undefined k = Inl TypeError"
| "get_prop Null k = Inl TypeError"
| "get_prop (JObj ps) k = Inr (case map_of ps k of None \<Rightarrow> Undefined | Some v \<Rightarrow> v)"
| "get_prop (JBool b) k = Inr Undefined"
| "get_prop (JNum n) k = Inr Undefined"
| "get_prop (JStr s) k = Inr Undefined"
| "get_prop (JArr xs) k = Inr Undefined"

definition indexed :: "'a list \<Rightarrow> (string \<times> 'a) list" where
  "indexed xs = zip (map show_nat [0..<length xs]) xs"

text \<open>\<^verbatim>\<open>Object.entries(v)\<close>: a TypeError on \<^verbatim>\<open>undefined\<close> and \<^verbatim>\<open>null\<close>, nothing for
  a boolean or a number, the indexed characters of a string, the indexed elements of an
  array, the own properties of an object.\<close>

fun object_entries :: "jsval \<Rightarrow> js_throw + (string \<times> jsval) list" where
  "object_entries Undefined = Inl TypeError"
| "object_entries Null = Inl TypeError"
| "object_entries (JBool b) = Inr []"
| "object_entries (JNum n) = Inr []"
| "object_entries (JStr s) = Inr (indexed (map (\<lambda>c. JStr [c]) s))"
| "object_entries (JArr xs) = Inr (indexed xs)"
| "object_entries (JObj ps) = Inr ps"

section \<open>The client\<close>

text \<open>The object built by \<^verbatim>\<open>new SpotifyWebApi(access_token)\<close> has one field.\<close>

record SpotifyWebApi =
  access_token :: jsval

text \<open>The argument of \<^verbatim>\<open>performRequest\<close>; a field the object literal leaves out reads
  as \<^verbatim>\<open>undefined\<close>. Every endpoint method gives \<^verbatim>\<open>url\<close>, as a string.\<close>

record options =
  url :: string
  "method" :: jsval
  params :: jsval
  data :: jsval

text \<open>The configuration handed to \<^verbatim>\<open>axios\<close>: the four fields above and three fixed
  ones (\<^verbatim>\<open>reponseType\<close> is the source's spelling).\<close>

record axios_config = options +
  baseURL :: string
  headers :: "(string \<times> string) list"
  reponseType :: string

text \<open>
  The two required modules are outside the repository and are parameters of the model:
  \<open>axios m cfg\<close> is \<open>Inr\<close> the value the promise resolves to or \<open>Inl\<close> the value it
  rejects with; \<open>qs_escape m v\<close> is \<^verbatim>\<open>querystring.escape(v)\<close>, a string unless it throws.
\<close>

record modules =
  axios :: "axios_config \<Rightarrow> jsval + jsval"
  qs_escape :: "jsval \<Rightarrow> js_throw + string"

text \<open>What a call of a method leaves behind: the client object after the call, the
  requests handed to \<^verbatim>\<open>axios\<close> in order, and how the returned promise settles
  (\<open>Inr\<close> resolved, \<open>Inl\<close> rejected).\<close>

record call_result =
  this_after :: SpotifyWebApi
  issued :: "axios_config list"
  outcome :: "js_throw + jsval"

text \<open>The constructor stores \<^verbatim>\<open>access_token || null\<close> and logs a notice when the stored
  value is falsy; the second component is what it writes to the console.\<close>

definition constructor :: "jsval \<Rightarrow> SpotifyWebApi \<times> string list" where
  "constructor tok =
     (let this = \<lparr>access_token = js_or tok Null\<rparr>
      in (this, if \<not> truthy (access_token this) then [''Please provide a access token!''] else []))"

text \<open>The handler \<^verbatim>\<open>catch (e) { throw e.response.data.error; }\<close>: three property reads,
  each of which throws on \<^verbatim>\<open>undefined\<close> or \<^verbatim>\<open>null\<close>.\<close>

definition catch_handler :: "jsval \<Rightarrow> js_throw" where
  "catch_handler e =
     (case get_prop e ''response'' of
        Inl t \<Rightarrow> t
      | Inr response \<Rightarrow>
         (case get_prop response ''data'' of
            Inl t \<Rightarrow> t
          | Inr d \<Rightarrow>
             (case get_prop d ''error'' of
                Inl t \<Rightarrow> t
              | Inr err \<Rightarrow> Thrown err)))"

definition performRequest :: "modules \<Rightarrow> SpotifyWebApi \<Rightarrow> options \<Rightarrow> call_result" where
  "performRequest m this opts =
     (let cfg = \<lparr>url = url opts,
                 method = js_or (method opts) (JStr ''GET''),
                 params = js_or (params opts) Null,
                 data = js_or (data opts) Null,
                 baseURL = ''https://api.spotify.com/v1'',
                 headers = [(''Authorization'', ''Bearer '' @ to_string (access_token this))],
                 reponseType = ''json''\<rparr>
      in \<lparr>this_after = this,
          issued = [cfg],
          outcome = (case axios m cfg of
                       Inr d \<Rightarrow> Inr d
                     | Inl e \<Rightarrow> Inl (catch_handler e))\<rparr>)"

text \<open>A method that throws before it reaches \<^verbatim>\<open>performRequest\<close>: the promise of the
  \<^verbatim>\<open>async\<close> method is rejected and no request is made.\<close>

definition rejected :: "SpotifyWebApi \<Rightarrow> js_throw \<Rightarrow> call_result" where
  "rejected this t = \<lparr>this_after = this, issued = [], outcome = Inl t\<rparr>"

text \<open>
  The loop \<^verbatim>\<open>for (const [key, value] of entries) options.params[prefix + key] = value\<close>.
  An assignment to a property whose name is not an array index replaces the value in
  place when the object has the property and appends the property otherwise; every name
  assigned here starts with a letter.
\<close>

definition assign_all ::
  "string \<Rightarrow> (string \<times> jsval) list \<Rightarrow> (string \<times> jsval) list \<Rightarrow> (string \<times> jsval) list" where
  "assign_all prefix entries ps =
     fold (\<lambda>(key, value) acc. AList.update (prefix @ key) value acc) entries ps"

section \<open>The endpoint methods\<close>

text \<open>
  One definition per method, in the order of the source. An argument with a default is
  taken raw (\<open>_arg\<close>) and bound through \<open>default_arg\<close>; \<^verbatim>\<open>[x].filter(Boolean).join(",")\<close>
  is \<open>join_comma (filter truthy [x])\<close>; a template literal is a concatenation with
  \<open>to_string\<close>; an object literal lists its properties in the order written.
\<close>

definition getCategories :: "modules \<Rightarrow> SpotifyWebApi \<Rightarrow> jsval \<Rightarrow> jsval \<Rightarrow> jsval \<Rightarrow> jsval \<Rightarrow> call_result" where
  "getCategories m this country locale limit_arg offset_arg =
     (let limit = default_arg limit_arg (JNum 20);
          offset = default_arg offset_arg (JNum 0)
      in performRequest m this
        \<lparr>url = ''/browse/categories'',
         method = Undefined,
         params = JObj [(''country'', country),
                        (''locale'', locale),
                        (''limit'', limit),
                        (''offset'', offset)],
         data = Undefined\<rparr>)"

definition getCategory :: "modules \<Rightarrow> SpotifyWebApi \<Rightarrow> jsval \<Rightarrow> jsval \<Rightarrow> jsval \<Rightarrow> call_result" where
  "getCategory m this category_id country locale =
     performRequest m this
        \<lparr>url = ''/browse/categories/'' @ to_string category_id,
         method = Undefined,
         params = JObj [(''country'', country),
                        (''locale'', locale)],
         data = Undefined\<rparr>"

definition getCategoryPlaylist :: "modules \<Rightarrow> SpotifyWebApi \<Rightarrow> jsval \<Rightarrow> jsval \<Rightarrow> jsval \<Rightarrow> jsval \<Rightarrow> call_result" where
  "getCategoryPlaylist m this category_id country limit_arg offset_arg =
     (let limit = default_arg limit_arg (JNum 20);
          offset = default_arg offset_arg (JNum 0)
      in performRequest m this
        \<lparr>url = ''/browse/categories/'' @ to_string category_id @ ''/playlists'',
         method = Undefined,
         params = JObj [(''country'', country),
                        (''limit'', limit),
                        (''offset'', offset)],
         data = Undefined\<rparr>)"

definition getRecommendations ::
  "modules \<Rightarrow> SpotifyWebApi \<Rightarrow> jsval \<Rightarrow> jsval \<Rightarrow> jsval \<Rightarrow> jsval \<Rightarrow> jsval \<Rightarrow> jsval \<Rightarrow> jsval \<Rightarrow> jsval
     \<Rightarrow> call_result" where
  "getRecommendations m this seed_artists_arg seed_genres_arg seed_tracks_arg limit_arg market
       min_arg max_arg target_arg =
     (let seed_artists = default_arg seed_artists_arg (JArr []);
          seed_genres = default_arg seed_genres_arg (JArr []);
          seed_tracks = default_arg seed_tracks_arg (JArr []);
          limit = default_arg limit_arg (JNum 20);
          min' = default_arg min_arg (JObj []);
          max' = default_arg max_arg (JObj []);
          target' = default_arg target_arg (JObj []);
          ps0 = [(''seed_artists'', JStr (join_comma (filter truthy [seed_artists]))),
                 (''seed_genres'', JStr (join_comma (filter truthy [seed_genres]))),
                 (''seed_tracks'', JStr (join_comma (filter truthy [seed_tracks]))),
                 (''limit'', limit),
                 (''market'', market)]
      in case object_entries min' of
           Inl t \<Rightarrow> rejected this t
         | Inr es1 \<Rightarrow>
            (let ps1 = assign_all ''min_'' es1 ps0
             in case object_entries max' of
                  Inl t \<Rightarrow> rejected this t
                | Inr es2 \<Rightarrow>
                   (let ps2 = assign_all ''max_'' es2 ps1
                    in case object_entries target' of
                         Inl t \<Rightarrow> rejected this t
                       | Inr es3 \<Rightarrow>
                          (let ps3 = assign_all ''target_'' es3 ps2
                           in performRequest m this
                                \<lparr>url = ''/recommendations'',
                                 method = Undefined,
                                 params = JObj ps3,
                                 data = Undefined\<rparr>))))"

definition getRecommendationGenres :: "modules \<Rightarrow> SpotifyWebApi \<Rightarrow> call_result" where
  "getRecommendationGenres m this =
     performRequest m this
        \<lparr>url = ''/recommendations/available-genre-seeds'',
         method = Undefined,
         params = Undefined,
         data = Undefined\<rparr>"

definition getNewReleases :: "modules \<Rightarrow> SpotifyWebApi \<Rightarrow> jsval \<Rightarrow> jsval \<Rightarrow> jsval \<Rightarrow> call_result" where
  "getNewReleases m this country limit_arg offset_arg =
     (let limit = default_arg limit_arg (JNum 20);
          offset = default_arg offset_arg (JNum 0)
      in performRequest m this
        \<lparr>url = ''/browse/new-releases'',
         method = Undefined,
         params = JObj [(''country'', country),
                        (''limit'', limit),
                        (''offset'', offset)],
         data = Undefined\<rparr>)"

definition getFeaturedPlaylists :: "modules \<Rightarrow> SpotifyWebApi \<Rightarrow> jsval \<Rightarrow> jsval \<Rightarrow> jsval \<Rightarrow> jsval \<Rightarrow> jsval \<Rightarrow> call_result" where
  "getFeaturedPlaylists m this country locale timestamp limit_arg offset_arg =
     (let limit = default_arg limit_arg (JNum 20);
          offset = default_arg offset_arg (JNum 0)
      in performRequest m this
        \<lparr>url = ''/browse/featured-playlists'',
         method = Undefined,
         params = JObj [(''country'', country),
                        (''locale'', locale),
                        (''timestamp'', timestamp),
                        (''limit'', limit),
                        (''offset'', offset)],
         data = Undefined\<rparr>)"

definition getArtists :: "modules \<Rightarrow> SpotifyWebApi \<Rightarrow> jsval \<Rightarrow> call_result" where
  "getArtists m this ids_arg =
     (let ids = default_arg ids_arg (JArr [])
      in performRequest m this
        \<lparr>url = ''/artists'',
         method = Undefined,
         params = JObj [(''ids'', JStr (join_comma (filter truthy [ids])))],
         data = Undefined\<rparr>)"

definition getArtist :: "modules \<Rightarrow> SpotifyWebApi \<Rightarrow> jsval \<Rightarrow> call_result" where
  "getArtist m this id' =
     performRequest m this
        \<lparr>url = ''/artists/'' @ to_string id',
         method = Undefined,
         params = Undefined,
         data = Undefined\<rparr>"

definition getArtistsAlbums :: "modules \<Rightarrow> SpotifyWebApi \<Rightarrow> jsval \<Rightarrow> jsval \<Rightarrow> jsval \<Rightarrow> jsval \<Rightarrow> jsval \<Rightarrow> call_result" where
  "getArtistsAlbums m this id' include_groups_arg market limit_arg offset_arg =
     (let include_groups = default_arg include_groups_arg (JArr [JStr ''single'', JStr ''appears_on'']);
          limit = default_arg limit_arg (JNum 20);
          offset = default_arg offset_arg (JNum 0)
      in performRequest m this
        \<lparr>url = ''/artists/'' @ to_string id' @ ''/albums'',
         method = Undefined,
         params = JObj [(''include_groups'', JStr (join_comma (filter truthy [include_groups]))),
                        (''market'', market),
                        (''limit'', limit),
                        (''offset'', offset)],
         data = Undefined\<rparr>)"

definition getArtistsTopTracks :: "modules \<Rightarrow> SpotifyWebApi \<Rightarrow> jsval \<Rightarrow> jsval \<Rightarrow> call_result" where
  "getArtistsTopTracks m this id' market =
     performRequest m this
        \<lparr>url = ''/artists/'' @ to_string id' @ ''/top-tracks'',
         method = Undefined,
         params = JObj [(''market'', market)],
         data = Undefined\<rparr>"

definition getRelatedArtists :: "modules \<Rightarrow> SpotifyWebApi \<Rightarrow> jsval \<Rightarrow> call_result" where
  "getRelatedArtists m this id' =
     performRequest m this
        \<lparr>url = ''/artists/'' @ to_string id' @ ''/related-artists'',
         method = Undefined,
         params = Undefined,
         data = Undefined\<rparr>"

definition getCurrentPlaying :: "modules \<Rightarrow> SpotifyWebApi \<Rightarrow> jsval \<Rightarrow> call_result" where
  "getCurrentPlaying m this market =
     performRequest m this
        \<lparr>url = ''/me/player/currently-playing'',
         method = Undefined,
         params = JObj [(''market'', market)],
         data = Undefined\<rparr>"

definition setVolume :: "modules \<Rightarrow> SpotifyWebApi \<Rightarrow> jsval \<Rightarrow> jsval \<Rightarrow> call_result" where
  "setVolume m this volume_percent_arg device_id =
     (let volume_percent = default_arg volume_percent_arg (JNum 50)
      in performRequest m this
        \<lparr>url = ''/me/player/volume'',
         method = JStr ''PUT'',
         params = JObj [(''volume_percent'', volume_percent),
                        (''device_id'', device_id)],
         data = Undefined\<rparr>)"

definition getPlaybackInfo :: "modules \<Rightarrow> SpotifyWebApi \<Rightarrow> jsval \<Rightarrow> call_result" where
  "getPlaybackInfo m this market =
     performRequest m this
        \<lparr>url = ''/me/player'',
         method = Undefined,
         params = JObj [(''market'', market)],
         data = Undefined\<rparr>"

definition skipPrevious :: "modules \<Rightarrow> SpotifyWebApi \<Rightarrow> jsval \<Rightarrow> call_result" where
  "skipPrevious m this device_id =
     performRequest m this
        \<lparr>url = ''/me/player/previous'',
         method = JStr ''POST'',
         params = JObj [(''device_id'', device_id)],
         data = Undefined\<rparr>"

definition getRecentlyPlayed :: "modules \<Rightarrow> SpotifyWebApi \<Rightarrow> jsval \<Rightarrow> jsval \<Rightarrow> jsval \<Rightarrow> call_result" where
  "getRecentlyPlayed m this limit_arg after before =
     (let limit = default_arg limit_arg (JNum 20)
      in performRequest m this
        \<lparr>url = ''/me/player/recently-played'',
         method = Undefined,
         params = JObj [(''limit'', limit),
                        (''after'', after),
                        (''before'', before)],
         data = Undefined\<rparr>)"

definition skipNext :: "modules \<Rightarrow> SpotifyWebApi \<Rightarrow> jsval \<Rightarrow> call_result" where
  "skipNext m this device_id =
     performRequest m this
        \<lparr>url = ''/me/player/next'',
         method = JStr ''POST'',
         params = JObj [(''device_id'', device_id)],
         data = Undefined\<rparr>"

definition pausePlayback :: "modules \<Rightarrow> SpotifyWebApi \<Rightarrow> jsval \<Rightarrow> call_result" where
  "pausePlayback m this device_id =
     performRequest m this
        \<lparr>url = ''/me/player/pause'',
         method = JStr ''PUT'',
         params = JObj [(''device_id'', device_id)],
         data = Undefined\<rparr>"

definition setRepeatMode :: "modules \<Rightarrow> SpotifyWebApi \<Rightarrow> jsval \<Rightarrow> jsval \<Rightarrow> call_result" where
  "setRepeatMode m this state_arg device_id =
     (let state = default_arg state_arg (JStr ''track'')
      in performRequest m this
        \<lparr>url = ''/me/player/repeat'',
         method = JStr ''PUT'',
         params = JObj [(''state'', state),
                        (''device_id'', device_id)],
         data = Undefined\<rparr>)"

definition startPlayback :: "modules \<Rightarrow> SpotifyWebApi \<Rightarrow> jsval \<Rightarrow> jsval \<Rightarrow> jsval \<Rightarrow> jsval \<Rightarrow> jsval \<Rightarrow> call_result" where
  "startPlayback m this device_id context_uri uris_arg offset position_ms =
     (let uris = default_arg uris_arg (JArr [])
      in performRequest m this
        \<lparr>url = ''/me/player/play'',
         method = JStr ''PUT'',
         params = JObj [(''device_id'', device_id)],
         data = JObj [(''context_uri'', context_uri),
                      (''uris'', uris),
                      (''offset'', offset),
                      (''position_ms'', position_ms)]\<rparr>)"

definition seekTo :: "modules \<Rightarrow> SpotifyWebApi \<Rightarrow> jsval \<Rightarrow> jsval \<Rightarrow> call_result" where
  "seekTo m this position_ms_arg device_id =
     (let position_ms = default_arg position_ms_arg (JNum 0)
      in performRequest m this
        \<lparr>url = ''/me/player/seek'',
         method = JStr ''PUT'',
         params = JObj [(''position_ms'', position_ms),
                        (''device_id'', device_id)],
         data = Undefined\<rparr>)"

definition transferPlayback :: "modules \<Rightarrow> SpotifyWebApi \<Rightarrow> jsval \<Rightarrow> jsval \<Rightarrow> call_result" where
  "transferPlayback m this device_ids play =
     performRequest m this
        \<lparr>url = ''/me/player'',
         method = JStr ''PUT'',
         params = Undefined,
         data = JObj [(''device_ids'', device_ids),
                      (''play'', play)]\<rparr>"

definition toggleShuffle :: "modules \<Rightarrow> SpotifyWebApi \<Rightarrow> jsval \<Rightarrow> jsval \<Rightarrow> call_result" where
  "toggleShuffle m this state device_id =
     performRequest m this
        \<lparr>url = ''/me/player/shuffle'',
         method = JStr ''PUT'',
         params = JObj [(''state'', state),
                        (''device_id'', device_id)],
         data = Undefined\<rparr>"

definition getAvailableDevices :: "modules \<Rightarrow> SpotifyWebApi \<Rightarrow> call_result" where
  "getAvailableDevices m this =
     performRequest m this
        \<lparr>url = ''/me/player/devices'',
         method = Undefined,
         params = Undefined,
         data = Undefined\<rparr>"

definition getUserProfile :: "modules \<Rightarrow> SpotifyWebApi \<Rightarrow> jsval \<Rightarrow> call_result" where
  "getUserProfile m this user_id =
     performRequest m this
        \<lparr>url = ''/users/'' @ to_string user_id,
         method = Undefined,
         params = Undefined,
         data = Undefined\<rparr>"

definition getCurrentUser :: "modules \<Rightarrow> SpotifyWebApi \<Rightarrow> call_result" where
  "getCurrentUser m this =
     performRequest m this
        \<lparr>url = ''/me'',
         method = Undefined,
         params = Undefined,
         data = Undefined\<rparr>"

definition getFollowingState :: "modules \<Rightarrow> SpotifyWebApi \<Rightarrow> jsval \<Rightarrow> jsval \<Rightarrow> call_result" where
  "getFollowingState m this type' ids_arg =
     (let ids = default_arg ids_arg (JArr [])
      in performRequest m this
        \<lparr>url = ''/me/following/contains'',
         method = Undefined,
         params = JObj [(''type'', type'),
                        (''ids'', JStr (join_comma (filter truthy [ids])))],
         data = Undefined\<rparr>)"

definition checkIfUsersFollowPlaylist :: "modules \<Rightarrow> SpotifyWebApi \<Rightarrow> jsval \<Rightarrow> jsval \<Rightarrow> call_result" where
  "checkIfUsersFollowPlaylist m this playlist_id ids_arg =
     (let ids = default_arg ids_arg (JArr [])
      in performRequest m this
        \<lparr>url = ''/playlists/'' @ to_string playlist_id @ ''/followers/contains'',
         method = Undefined,
         params = JObj [(''ids'', JStr (join_comma (filter truthy [ids])))],
         data = Undefined\<rparr>)"

definition followUsersOrArtists :: "modules \<Rightarrow> SpotifyWebApi \<Rightarrow> jsval \<Rightarrow> jsval \<Rightarrow> call_result" where
  "followUsersOrArtists m this type' ids_arg =
     (let ids = default_arg ids_arg (JArr [])
      in performRequest m this
        \<lparr>url = ''/me/following'',
         method = JStr ''PUT'',
         params = JObj [(''type'', type'),
                        (''ids'', JStr (join_comma (filter truthy [ids])))],
         data = JObj [(''ids'', ids)]\<rparr>)"

definition followPlaylist :: "modules \<Rightarrow> SpotifyWebApi \<Rightarrow> jsval \<Rightarrow> jsval \<Rightarrow> call_result" where
  "followPlaylist m this playlist_id visible_arg =
     (let visible = default_arg visible_arg (JBool True)
      in performRequest m this
        \<lparr>url = ''/playlists/'' @ to_string playlist_id @ ''/followers'',
         method = JStr ''PUT'',
         params = Undefined,
         data = JObj [(''visible'', visible)]\<rparr>)"

definition getFollowedArtists :: "modules \<Rightarrow> SpotifyWebApi \<Rightarrow> jsval \<Rightarrow> jsval \<Rightarrow> jsval \<Rightarrow> call_result" where
  "getFollowedArtists m this type_arg limit_arg after =
     (let type' = default_arg type_arg (JStr ''artist'');
          limit = default_arg limit_arg (JNum 20)
      in performRequest m this
        \<lparr>url = ''/me/following'',
         method = Undefined,
         params = JObj [(''type'', type'),
                        (''limit'', limit),
                        (''after'', after)],
         data = Undefined\<rparr>)"

definition unfollowArtistsOrUsers :: "modules \<Rightarrow> SpotifyWebApi \<Rightarrow> jsval \<Rightarrow> jsval \<Rightarrow> call_result" where
  "unfollowArtistsOrUsers m this type' ids_arg =
     (let ids = default_arg ids_arg (JArr [])
      in performRequest m this
        \<lparr>url = ''/me/following'',
         method = JStr ''DELETE'',
         params = JObj [(''type'', type'),
                        (''ids'', JStr (join_comma (filter truthy [ids])))],
         data = JObj [(''ids'', ids)]\<rparr>)"

definition unfollowPlaylist :: "modules \<Rightarrow> SpotifyWebApi \<Rightarrow> jsval \<Rightarrow> call_result" where
  "unfollowPlaylist m this playlist_id =
     performRequest m this
        \<lparr>url = ''/playlists/'' @ to_string playlist_id @ ''/followers'',
         method = Undefined,
         params = Undefined,
         data = Undefined\<rparr>"

definition searchItem ::
  "modules \<Rightarrow> SpotifyWebApi \<Rightarrow> jsval \<Rightarrow> jsval \<Rightarrow> jsval \<Rightarrow> jsval \<Rightarrow> jsval \<Rightarrow> jsval \<Rightarrow> call_result" where
  "searchItem m this q type_arg market limit_arg offset_arg include_external =
     (let type' = default_arg type_arg (JArr [JStr ''track'', JStr ''artist'']);
          limit = default_arg limit_arg (JNum 20);
          offset = default_arg offset_arg (JNum 0)
      in case qs_escape m q of
           Inl t \<Rightarrow> rejected this t
         | Inr escaped \<Rightarrow>
            performRequest m this
              \<lparr>url = ''/search'',
               method = Undefined,
               params = JObj [(''q'', JStr escaped),
                              (''type'', JStr (join_comma (filter truthy [type']))),
                              (''market'', market),
                              (''limit'', limit),
                              (''offset'', offset),
                              (''include_external'', include_external)],
               data = Undefined\<rparr>)"

section \<open>Calls\<close>

text \<open>A call of any endpoint method with its arguments, to quantify over all of them.\<close>

datatype call =
    GetCategories jsval jsval jsval jsval
  | GetCategory jsval jsval jsval
  | GetCategoryPlaylist jsval jsval jsval jsval
  | GetRecommendations jsval jsval jsval jsval jsval jsval jsval jsval
  | GetRecommendationGenres
  | GetNewReleases jsval jsval jsval
  | GetFeaturedPlaylists jsval jsval jsval jsval jsval
  | GetArtists jsval
  | GetArtist jsval
  | GetArtistsAlbums jsval jsval jsval jsval jsval
  | GetArtistsTopTracks jsval jsval
  | GetRelatedArtists jsval
  | GetCurrentPlaying jsval
  | SetVolume jsval jsval
  | GetPlaybackInfo jsval
  | SkipPrevious jsval
  | GetRecentlyPlayed jsval jsval jsval
  | SkipNext jsval
  | PausePlayback jsval
  | SetRepeatMode jsval jsval
  | StartPlayback jsval jsval jsval jsval jsval
  | SeekTo jsval jsval
  | TransferPlayback jsval jsval
  | ToggleShuffle jsval jsval
  | GetAvailableDevices
  | GetUserProfile jsval
  | GetCurrentUser
  | GetFollowingState jsval jsval
  | CheckIfUsersFollowPlaylist jsval jsval
  | FollowUsersOrArtists jsval jsval
  | FollowPlaylist jsval jsval
  | GetFollowedArtists jsval jsval jsval
  | UnfollowArtistsOrUsers jsval jsval
  | UnfollowPlaylist jsval
  | SearchItem jsval jsval jsval jsval jsval jsval

fun invoke :: "modules \<Rightarrow> SpotifyWebApi \<Rightarrow> call \<Rightarrow> call_result" where
  "invoke m this (GetCategories a b c d) = getCategories m this a b c d"
| "invoke m this (GetCategory a b c) = getCategory m this a b c"
| "invoke m this (GetCategoryPlaylist a b c d) = getCategoryPlaylist m this a b c d"
| "invoke m this (GetRecommendations a b c d e f g h) = getRecommendations m this a b c d e f g h"
| "invoke m this GetRecommendationGenres = getRecommendationGenres m this"
| "invoke m this (GetNewReleases a b c) = getNewReleases m this a b c"
| "invoke m this (GetFeaturedPlaylists a b c d e) = getFeaturedPlaylists m this a b c d e"
| "invoke m this (GetArtists a) = getArtists m this a"
| "invoke m this (GetArtist a) = getArtist m this a"
| "invoke m this (GetArtistsAlbums a b c d e) = getArtistsAlbums m this a b c d e"
| "invoke m this (GetArtistsTopTracks a b) = getArtistsTopTracks m this a b"
| "invoke m this (GetRelatedArtists a) = getRelatedArtists m this a"
| "invoke m this (GetCurrentPlaying a) = getCurrentPlaying m this a"
| "invoke m this (SetVolume a b) = setVolume m this a b"
| "invoke m this (GetPlaybackInfo a) = getPlaybackInfo m this a"
| "invoke m this (SkipPrevious a) = skipPrevious m this a"
| "invoke m this (GetRecentlyPlayed a b c) = getRecentlyPlayed m this a b c"
| "invoke m this (SkipNext a) = skipNext m this a"
| "invoke m this (PausePlayback a) = pausePlayback m this a"
| "invoke m this (SetRepeatMode a b) = setRepeatMode m this a b"
| "invoke m this (StartPlayback a b c d e) = startPlayback m this a b c d e"
| "invoke m this (SeekTo a b) = seekTo m this a b"
| "invoke m this (TransferPlayback a b) = transferPlayback m this a b"
| "invoke m this (ToggleShuffle a b) = toggleShuffle m this a b"
| "invoke m this GetAvailableDevices = getAvailableDevices m this"
| "invoke m this (GetUserProfile a) = getUserProfile m this a"
| "invoke m this GetCurrentUser = getCurrentUser m this"
| "invoke m this (GetFollowingState a b) = getFollowingState m this a b"
| "invoke m this (CheckIfUsersFollowPlaylist a b) = checkIfUsersFollowPlaylist m this a b"
| "invoke m this (FollowUsersOrArtists a b) = followUsersOrArtists m this a b"
| "invoke m this (FollowPlaylist a b) = followPlaylist m this a b"
| "invoke m this (GetFollowedArtists a b c) = getFollowedArtists m this a b c"
| "invoke m this (UnfollowArtistsOrUsers a b) = unfollowArtistsOrUsers m this a b"
| "invoke m this (UnfollowPlaylist a) = unfollowPlaylist m this a"
| "invoke m this (SearchItem a b c d e f) = searchItem m this a b c d e f"

section \<open>Reading a call's request\<close>

text \<open>The verb a method writes into its options; \<open>None\<close> for the methods whose object
  literal has no \<^verbatim>\<open>method\<close> field.\<close>

definition explicit_verb :: "call \<Rightarrow> string option" where
  "explicit_verb c =
     (case c of
        SetVolume volume_percent device_id \<Rightarrow> Some ''PUT''
      | SkipPrevious device_id \<Rightarrow> Some ''POST''
      | SkipNext device_id \<Rightarrow> Some ''POST''
      | PausePlayback device_id \<Rightarrow> Some ''PUT''
      | SetRepeatMode state device_id \<Rightarrow> Some ''PUT''
      | StartPlayback device_id context_uri uris offset position_ms \<Rightarrow> Some ''PUT''
      | SeekTo position_ms device_id \<Rightarrow> Some ''PUT''
      | TransferPlayback device_ids play \<Rightarrow> Some ''PUT''
      | ToggleShuffle state device_id \<Rightarrow> Some ''PUT''
      | FollowUsersOrArtists type' ids \<Rightarrow> Some ''PUT''
      | FollowPlaylist playlist_id visible \<Rightarrow> Some ''PUT''
      | UnfollowArtistsOrUsers type' ids \<Rightarrow> Some ''DELETE''
      | _ \<Rightarrow> None)"

text \<open>The arguments a call passes through \<^verbatim>\<open>[x].filter(Boolean).join(",")\<close>, each with
  the name of the query parameter it becomes.\<close>

definition array_params :: "call \<Rightarrow> (string \<times> jsval) list" where
  "array_params c =
     (case c of
        GetRecommendations seed_artists seed_genres seed_tracks limit market mn mx tg \<Rightarrow>
          [(''seed_artists'', seed_artists), (''seed_genres'', seed_genres),
           (''seed_tracks'', seed_tracks)]
      | GetArtists ids \<Rightarrow> [(''ids'', ids)]
      | GetArtistsAlbums id' include_groups market limit offset \<Rightarrow>
          [(''include_groups'', include_groups)]
      | GetFollowingState type' ids \<Rightarrow> [(''ids'', ids)]
      | CheckIfUsersFollowPlaylist playlist_id ids \<Rightarrow> [(''ids'', ids)]
      | FollowUsersOrArtists type' ids \<Rightarrow> [(''ids'', ids)]
      | UnfollowArtistsOrUsers type' ids \<Rightarrow> [(''ids'', ids)]
      | SearchItem q type' market limit offset include_external \<Rightarrow> [(''type'', type')]
      | _ \<Rightarrow> [])"

text \<open>The value of query parameter \<open>k\<close>, and of body field \<open>k\<close>, in the one request a call
  issued; \<open>None\<close> when the call issued no request, or the request has no such entry.\<close>

definition query_param :: "call_result \<Rightarrow> string \<Rightarrow> jsval option" where
  "query_param res k =
     (case issued res of
        [req] \<Rightarrow> (case params req of JObj ps \<Rightarrow> map_of ps k | _ \<Rightarrow> None)
      | _ \<Rightarrow> None)"

definition body_field :: "call_result \<Rightarrow> string \<Rightarrow> jsval option" where
  "body_field res k =
     (case issued res of
        [req] \<Rightarrow> (case data req of JObj ps \<Rightarrow> map_of ps k | _ \<Rightarrow> None)
      | _ \<Rightarrow> None)"

text \<open>The verb, path, query parameters and body of each request a call issued, in
  order.\<close>

definition sent :: "call_result \<Rightarrow> (jsval \<times> string \<times> jsval \<times> jsval) list" where
  "sent res = map (\<lambda>req. (method req, url req, params req, data req)) (issued res)"

text \<open>The path a method writes into its options.\<close>

definition endpoint_path :: "call \<Rightarrow> string" where
  "endpoint_path c =
     (case c of
        GetCategories country locale limit offset \<Rightarrow> ''/browse/categories''
      | GetCategory category_id country locale \<Rightarrow> ''/browse/categories/'' @ to_string category_id
      | GetCategoryPlaylist category_id country limit offset \<Rightarrow> ''/browse/categories/'' @ to_string category_id @ ''/playlists''
      | GetRecommendations seed_artists seed_genres seed_tracks limit market min_arg max_arg target_arg \<Rightarrow> ''/recommendations''
      | GetRecommendationGenres \<Rightarrow> ''/recommendations/available-genre-seeds''
      | GetNewReleases country limit offset \<Rightarrow> ''/browse/new-releases''
      | GetFeaturedPlaylists country locale timestamp limit offset \<Rightarrow> ''/browse/featured-playlists''
      | GetArtists ids \<Rightarrow> ''/artists''
      | GetArtist id' \<Rightarrow> ''/artists/'' @ to_string id'
      | GetArtistsAlbums id' include_groups market limit offset \<Rightarrow> ''/artists/'' @ to_string id' @ ''/albums''
      | GetArtistsTopTracks id' market \<Rightarrow> ''/artists/'' @ to_string id' @ ''/top-tracks''
      | GetRelatedArtists id' \<Rightarrow> ''/artists/'' @ to_string id' @ ''/related-artists''
      | GetCurrentPlaying market \<Rightarrow> ''/me/player/currently-playing''
      | SetVolume volume_percent device_id \<Rightarrow> ''/me/player/volume''
      | GetPlaybackInfo market \<Rightarrow> ''/me/player''
      | SkipPrevious device_id \<Rightarrow> ''/me/player/previous''
      | GetRecentlyPlayed limit after before \<Rightarrow> ''/me/player/recently-played''
      | SkipNext device_id \<Rightarrow> ''/me/player/next''
      | PausePlayback device_id \<Rightarrow> ''/me/player/pause''
      | SetRepeatMode state device_id \<Rightarrow> ''/me/player/repeat''
      | StartPlayback device_id context_uri uris offset position_ms \<Rightarrow> ''/me/player/play''
      | SeekTo position_ms device_id \<Rightarrow> ''/me/player/seek''
      | TransferPlayback device_ids play \<Rightarrow> ''/me/player''
      | ToggleShuffle state device_id \<Rightarrow> ''/me/player/shuffle''
      | GetAvailableDevices \<Rightarrow> ''/me/player/devices''
      | GetUserProfile user_id \<Rightarrow> ''/users/'' @ to_string user_id
      | GetCurrentUser \<Rightarrow> ''/me''
      | GetFollowingState type' ids \<Rightarrow> ''/me/following/contains''
      | CheckIfUsersFollowPlaylist playlist_id ids \<Rightarrow> ''/playlists/'' @ to_string playlist_id @ ''/followers/contains''
      | FollowUsersOrArtists type' ids \<Rightarrow> ''/me/following''
      | FollowPlaylist playlist_id visible \<Rightarrow> ''/playlists/'' @ to_string playlist_id @ ''/followers''
      | GetFollowedArtists type' limit after \<Rightarrow> ''/me/following''
      | UnfollowArtistsOrUsers type' ids \<Rightarrow> ''/me/following''
      | UnfollowPlaylist playlist_id \<Rightarrow> ''/playlists/'' @ to_string playlist_id @ ''/followers''
      | SearchItem q type' market limit offset include_external \<Rightarrow> ''/search'')"

text \<open>
  What a call throws before it reaches \<^verbatim>\<open>performRequest\<close>, if anything. Two methods can:
  \<^verbatim>\<open>getRecommendations\<close> reads \<^verbatim>\<open>Object.entries\<close> of its three bounds in turn, which
  throws on \<^verbatim>\<open>null\<close>, and \<^verbatim>\<open>searchItem\<close> calls \<^verbatim>\<open>querystring.escape\<close>. The other
  methods evaluate nothing that can throw.
\<close>

definition early_throw :: "modules \<Rightarrow> call \<Rightarrow> js_throw option" where
  "early_throw m c =
     (case c of
        GetRecommendations seed_artists seed_genres seed_tracks limit market
            min_arg max_arg target_arg \<Rightarrow>
          (case object_entries (default_arg min_arg (JObj [])) of
             Inl t \<Rightarrow> Some t
           | Inr es1 \<Rightarrow>
              (case object_entries (default_arg max_arg (JObj [])) of
                 Inl t \<Rightarrow> Some t
               | Inr es2 \<Rightarrow>
                  (case object_entries (default_arg target_arg (JObj [])) of
                     Inl t \<Rightarrow> Some t
                   | Inr es3 \<Rightarrow> None)))
      | SearchItem q type' market limit offset include_external \<Rightarrow>
          (case qs_escape m q of Inl t \<Rightarrow> Some t | Inr escaped \<Rightarrow> None)
      | _ \<Rightarrow> None)"

text \<open>Strings written one after another with a comma between neighbours.\<close>

fun comma_sep :: "string list \<Rightarrow> string" where
  "comma_sep [] = []"
| "comma_sep [s] = s"
| "comma_sep (s # t # ts) = s @ '','' @ comma_sep (t # ts)"

text \<open>The scalar values: booleans, numbers and strings.\<close>

fun scalar :: "jsval \<Rightarrow> bool" where
  "scalar (JBool b) = True"
| "scalar (JNum n) = True"
| "scalar (JStr s) = True"
| "scalar v = False"

section \<open>Sample collaborators\<close>

text \<open>Modules whose transport settles every request the same way and whose escape
  function returns its argument's string unchanged, as \<^verbatim>\<open>querystring.escape\<close> does on
  letters and digits.\<close>

definition fixed_modules :: "jsval + jsval \<Rightarrow> modules" where
  "fixed_modules r = \<lparr>axios = (\<lambda>cfg. r), qs_escape = (\<lambda>v. Inr (to_string v))\<rparr>"

text \<open>A rejection as the transport reports a 404 answer: the response carries the body
  \<^verbatim>\<open>{error: {status: 404, message: "not found"}}\<close>.\<close>

definition not_found_failure :: jsval where
  "not_found_failure =
     JObj [(''response'',
            JObj [(''status'', JNum 404),
                  (''data'', JObj [(''error'', JObj [(''status'', JNum 404),
                                                     (''message'', JStr ''not found'')])])])]"

text \<open>A rejection as the transport reports a refused connection: an error object with a
  message and a code and no \<^verbatim>\<open>response\<close> property.\<close>

definition network_failure :: jsval where
  "network_failure =
     JObj [(''message'', JStr ''Network Error''), (''code'', JStr ''ECONNREFUSED'')]"

section \<open>Basic facts\<close>

lemmas method_defs =
  getCategories_def getCategory_def getCategoryPlaylist_def getRecommendations_def
  getRecommendationGenres_def getNewReleases_def getFeaturedPlaylists_def getArtists_def
  getArtist_def getArtistsAlbums_def getArtistsTopTracks_def getRelatedArtists_def
  getCurrentPlaying_def setVolume_def getPlaybackInfo_def skipPrevious_def
  getRecentlyPlayed_def skipNext_def pausePlayback_def setRepeatMode_def startPlayback_def
  seekTo_def transferPlayback_def toggleShuffle_def getAvailableDevices_def
  getUserProfile_def getCurrentUser_def getFollowingState_def
  checkIfUsersFollowPlaylist_def followUsersOrArtists_def followPlaylist_def
  getFollowedArtists_def unfollowArtistsOrUsers_def unfollowPlaylist_def searchItem_def

text \<open>Every method either throws before it builds a request or hands one options
  object to \<^verbatim>\<open>performRequest\<close>, with a path that starts with a slash and the verb the
  method names, if any.\<close>

lemma invoke_cases:
  assumes rej: "\<And>t. P (rejected this t)"
    and perf: "\<And>opts. \<exists>p. url opts = CHR ''/'' # p \<Longrightarrow>
                 method opts = (case explicit_verb c of None \<Rightarrow> Undefined | Some v \<Rightarrow> JStr v) \<Longrightarrow>
                 P (performRequest m this opts)"
  shows "P (invoke m this c)"
  using perf
  by (cases c) (simp_all add: method_defs explicit_verb_def Let_def rej split: sum.splits)

lemma explicit_verb_nonempty: "explicit_verb c = Some v \<Longrightarrow> v \<noteq> []"
  by (cases c) (auto simp add: explicit_verb_def)

lemma this_after_performRequest: "this_after (performRequest m this opts) = this"
  by (simp add: performRequest_def Let_def)

lemma rejected_simps [simp]:
  "this_after (rejected this t) = this" "issued (rejected this t) = []"
  "outcome (rejected this t) = Inl t"
  by (simp_all add: rejected_def)

lemma issued_performRequest:
  "issued (performRequest m this opts) =
     [\<lparr>url = url opts,
       method = js_or (method opts) (JStr ''GET''),
       params = js_or (params opts) Null,
       data = js_or (data opts) Null,
       baseURL = ''https://api.spotify.com/v1'',
       headers = [(''Authorization'', ''Bearer '' @ to_string (access_token this))],
       reponseType = ''json''\<rparr>]"
  by (simp add: performRequest_def Let_def)

lemma outcome_performRequest:
  "issued (performRequest m this opts) = [req] \<Longrightarrow>
   outcome (performRequest m this opts) =
     (case axios m req of Inr d \<Rightarrow> Inr d | Inl e \<Rightarrow> Inl (catch_handler e))"
  by (simp add: performRequest_def Let_def)

lemma catch_handler_envelope:
  assumes "map_of e ''response'' = Some (JObj r)"
    and "map_of r ''data'' = Some (JObj d)"
    and "map_of d ''error'' = Some err"
  shows "catch_handler (JObj e) = Thrown err"
  using assms by (simp add: catch_handler_def)

text \<open>The loop over the entries of a bounds object writes the prefixed names and no
  other.\<close>

lemma map_of_assign_all_miss:
  "\<forall>key \<in> fst ` set es. k \<noteq> p @ key \<Longrightarrow> map_of (assign_all p es ps) k = map_of ps k"
proof (induction es arbitrary: ps)
  case Nil
  then show ?case by (simp add: assign_all_def)
next
  case (Cons e es)
  obtain key v where e: "e = (key, v)" by (cases e)
  have step: "assign_all p (e # es) ps = assign_all p es (AList.update (p @ key) v ps)"
    by (simp add: assign_all_def e)
  from Cons.prems have "k \<noteq> p @ key" and rest: "\<forall>key \<in> fst ` set es. k \<noteq> p @ key"
    by (simp_all add: e)
  then show ?case
    by (simp add: step Cons.IH [OF rest] update_conv')
qed

lemma map_of_assign_all_other:
  "(\<And>s. k \<noteq> p @ s) \<Longrightarrow> map_of (assign_all p es ps) k = map_of ps k"
  by (rule map_of_assign_all_miss) simp

lemma map_of_assign_all_hit:
  "distinct (map fst es) \<Longrightarrow> (key, v) \<in> set es \<Longrightarrow>
   map_of (assign_all p es ps) (p @ key) = Some v"
proof (induction es arbitrary: ps)
  case Nil
  then show ?case by simp
next
  case (Cons e es)
  obtain key' v' where e: "e = (key', v')" by (cases e)
  have step: "assign_all p (e # es) ps = assign_all p es (AList.update (p @ key') v' ps)"
    by (simp add: assign_all_def e)
  show ?case
  proof (cases "(key, v) \<in> set es")
    case True
    with Cons show ?thesis by (simp add: step)
  next
    case False
    with Cons.prems have same: "key' = key" "v' = v" and fresh: "key \<notin> fst ` set es"
      by (auto simp add: e)
    from fresh have "\<forall>k' \<in> fst ` set es. p @ key \<noteq> p @ k'" by auto
    then have "map_of (assign_all p es (AList.update (p @ key) v ps)) (p @ key)
               = map_of (AList.update (p @ key) v ps) (p @ key)"
      by (rule map_of_assign_all_miss)
    then show ?thesis by (simp add: step same update_conv')
  qed
qed

lemma query_param_performRequest:
  "params opts = JObj ps \<Longrightarrow> query_param (performRequest m this opts) k = map_of ps k"
  by (simp add: query_param_def issued_performRequest js_or_def)

lemma body_field_performRequest:
  "data opts = JObj ps \<Longrightarrow> body_field (performRequest m this opts) k = map_of ps k"
  by (simp add: body_field_def issued_performRequest js_or_def)

lemma join_comma_elems: "join_comma xs = comma_sep (map join_elem xs)"
  by (induction xs rule: induct_list012) simp_all

lemma join_comma_strings: "join_comma (map JStr ss) = comma_sep ss"
  by (induction ss rule: induct_list012) simp_all

lemma filter_join_array:
  "join_comma (filter truthy [default_arg (JArr xs) d]) = join_comma xs"
  by (simp add: default_arg_def)

lemma filter_join_scalar:
  "scalar x \<Longrightarrow>
   join_comma (filter truthy [default_arg x d]) = (if truthy x then to_string x else [])"
  by (cases x) (simp_all add: default_arg_def)

lemma array_param_value:
  assumes "(k, x) \<in> set (array_params c)" and "issued (invoke m this c) \<noteq> []"
  shows "\<exists>d. query_param (invoke m this c) k
           = Some (JStr (join_comma (filter truthy [default_arg x d])))"
  using assms
  by (cases c)
    (auto simp add: array_params_def method_defs Let_def query_param_performRequest
      map_of_assign_all_other split: sum.splits)


lemmas request_simps =
  Let_def default_arg_def issued_performRequest query_param_performRequest
  body_field_performRequest js_or_def

text \<open>Omitted arguments of the two methods that can throw before the request.\<close>

lemma default_arg_Undefined: "default_arg Undefined d = d"
  by (simp add: default_arg_def)

lemmas default_simps =
  Let_def default_arg_Undefined query_param_performRequest body_field_performRequest

lemma getRecommendations_limit_default:
  "issued (getRecommendations m this sa sg st Undefined mk mn mx tg) \<noteq> [] \<Longrightarrow>
   query_param (getRecommendations m this sa sg st Undefined mk mn mx tg) ''limit''
     = Some (JNum 20)"
  by (auto simp add: getRecommendations_def default_simps map_of_assign_all_other
      split: sum.splits)

lemma getRecommendations_all_omitted:
  "issued (getRecommendations m this Undefined Undefined Undefined Undefined Undefined
             Undefined Undefined Undefined)
     = [\<lparr>url = ''/recommendations'', method = JStr ''GET'',
         params = JObj [(''seed_artists'', JStr []), (''seed_genres'', JStr []),
                        (''seed_tracks'', JStr []), (''limit'', JNum 20),
                        (''market'', Undefined)],
         data = Null,
         baseURL = ''https://api.spotify.com/v1'',
         headers = [(''Authorization'', ''Bearer '' @ to_string (access_token this))],
         reponseType = ''json''\<rparr>]"
  by (simp add: getRecommendations_def default_simps assign_all_def issued_performRequest
      js_or_def)

lemma searchItem_defaults:
  "qs_escape m q = Inr s \<Longrightarrow>
   query_param (searchItem m this q Undefined mk Undefined Undefined ie) ''type''
     = Some (JStr ''track,artist'')
   \<and> query_param (searchItem m this q ty mk Undefined off ie) ''limit'' = Some (JNum 20)
   \<and> query_param (searchItem m this q ty mk l Undefined ie) ''offset'' = Some (JNum 0)"
  by (simp add: searchItem_def default_simps)

text \<open>A call that throws nothing early hands one options object, with the method's path
  and verb, to \<^verbatim>\<open>performRequest\<close>; a call that throws early rejects with what was thrown
  and issues no request.\<close>

lemma invoke_performs:
  assumes "early_throw m c = None"
    and "\<And>opts. url opts = endpoint_path c \<Longrightarrow>
           method opts = (case explicit_verb c of None \<Rightarrow> Undefined | Some v \<Rightarrow> JStr v) \<Longrightarrow>
           P (performRequest m this opts)"
  shows "P (invoke m this c)"
  using assms
  by (cases c)
    (simp_all add: method_defs early_throw_def endpoint_path_def explicit_verb_def Let_def
      split: sum.splits)

lemma invoke_throws_early:
  assumes "early_throw m c = Some t"
  shows "invoke m this c = rejected this t"
  using assms
  by (cases c)
    (simp_all add: method_defs early_throw_def Let_def split: sum.splits)

lemma performRequest_settles:
  "\<exists>req. issued (performRequest m this opts) = [req]
     \<and> outcome (performRequest m this opts)
         = (case axios m req of Inr d \<Rightarrow> Inr d | Inl e \<Rightarrow> Inl (catch_handler e))"
  by (simp add: performRequest_def Let_def)

lemma issues_request:
  assumes "early_throw m c = None"
  shows "issued (invoke m this c) \<noteq> []"
  by (rule invoke_performs [OF assms]) (simp add: issued_performRequest)

text \<open>What \<^verbatim>\<open>performRequest\<close> sends for an options object, and what the two methods
  that can throw early send when they do not.\<close>

lemma sent_performRequest:
  "sent (performRequest m this opts)
     = [(js_or (method opts) (JStr ''GET''), url opts, js_or (params opts) Null,
         js_or (data opts) Null)]"
  by (simp add: sent_def issued_performRequest)

lemma getRecommendations_entries:
  assumes "object_entries (default_arg min_arg (JObj [])) = Inr mn"
    and "object_entries (default_arg max_arg (JObj [])) = Inr mx"
    and "object_entries (default_arg target_arg (JObj [])) = Inr tg"
  shows "getRecommendations m this sa sg st l mk min_arg max_arg target_arg =
     performRequest m this
       \<lparr>url = ''/recommendations'', method = Undefined,
        params = JObj (assign_all ''target_'' tg (assign_all ''max_'' mx (assign_all ''min_'' mn
           [(''seed_artists'', JStr (join_comma (filter truthy [default_arg sa (JArr [])]))),
            (''seed_genres'', JStr (join_comma (filter truthy [default_arg sg (JArr [])]))),
            (''seed_tracks'', JStr (join_comma (filter truthy [default_arg st (JArr [])]))),
            (''limit'', default_arg l (JNum 20)),
            (''market'', mk)]))),
        data = Undefined\<rparr>"
  by (simp add: getRecommendations_def Let_def assms)

lemma sent_getRecommendations:
  assumes "object_entries (default_arg min_arg (JObj [])) = Inr mn"
    and "object_entries (default_arg max_arg (JObj [])) = Inr mx"
    and "object_entries (default_arg target_arg (JObj [])) = Inr tg"
  shows "sent (getRecommendations m this sa sg st l mk min_arg max_arg target_arg)
       = [(JStr ''GET'', ''/recommendations'',
           JObj (assign_all ''target_'' tg (assign_all ''max_'' mx (assign_all ''min_'' mn
              [(''seed_artists'', JStr (join_comma (filter truthy [default_arg sa (JArr [])]))),
               (''seed_genres'', JStr (join_comma (filter truthy [default_arg sg (JArr [])]))),
               (''seed_tracks'', JStr (join_comma (filter truthy [default_arg st (JArr [])]))),
               (''limit'', default_arg l (JNum 20)),
               (''market'', mk)]))),
           Null)]"
  by (simp add: getRecommendations_entries [OF assms] sent_performRequest js_or_def)

lemma sent_searchItem:
  assumes "qs_escape m q = Inr escaped"
  shows "sent (searchItem m this q ty mk l off ie)
       = [(JStr ''GET'', ''/search'',
           JObj [(''q'', JStr escaped),
                 (''type'', JStr (join_comma (filter truthy
                              [default_arg ty (JArr [JStr ''track'', JStr ''artist''])]))),
                 (''market'', mk),
                 (''limit'', default_arg l (JNum 20)),
                 (''offset'', default_arg off (JNum 0)),
                 (''include_external'', ie)],
           Null)]"
  by (simp add: searchItem_def Let_def assms sent_performRequest js_or_def)

section \<open>Results and errors of a call\<close>

text \<open>
  Claim C1. Whatever endpoint method is called, a call that throws nothing before its
  request issues exactly one request, and then: when the transport rejects that request
  with an error whose \<^verbatim>\<open>response.data\<close> is a JSON object with an \<^verbatim>\<open>error\<close> field, the call
  rejects with exactly the value of that field; when the transport resolves, the call
  resolves with the value the transport resolved with. A call that throws before its
  request issues none and rejects with what was thrown.
\<close>

theorem error_envelope:
  "(early_throw m c = None \<longrightarrow>
      (\<exists>req. issued (invoke m this c) = [req]
         \<and> (\<forall>e r d err.
               axios m req = Inl (JObj e) \<and> map_of e ''response'' = Some (JObj r)
               \<and> map_of r ''data'' = Some (JObj d) \<and> map_of d ''error'' = Some err
               \<longrightarrow> outcome (invoke m this c) = Inl (Thrown err))
         \<and> (\<forall>resp. axios m req = Inr resp \<longrightarrow> outcome (invoke m this c) = Inr resp)))
   \<and> (\<forall>t. early_throw m c = Some t \<longrightarrow>
         issued (invoke m this c) = [] \<and> outcome (invoke m this c) = Inl t)"
proof (intro conjI impI allI)
  assume none: "early_throw m c = None"
  have "\<exists>req. issued (invoke m this c) = [req]
          \<and> outcome (invoke m this c)
              = (case axios m req of Inr d \<Rightarrow> Inr d | Inl e \<Rightarrow> Inl (catch_handler e))"
    by (rule invoke_performs [OF none]) (rule performRequest_settles)
  then obtain req where i: "issued (invoke m this c) = [req]"
    and o: "outcome (invoke m this c)
              = (case axios m req of Inr d \<Rightarrow> Inr d | Inl e \<Rightarrow> Inl (catch_handler e))"
    by blast
  have "(\<forall>e r d err.
               axios m req = Inl (JObj e) \<and> map_of e ''response'' = Some (JObj r)
               \<and> map_of r ''data'' = Some (JObj d) \<and> map_of d ''error'' = Some err
               \<longrightarrow> outcome (invoke m this c) = Inl (Thrown err))
         \<and> (\<forall>resp. axios m req = Inr resp \<longrightarrow> outcome (invoke m this c) = Inr resp)"
    by (auto simp add: o catch_handler_envelope)
  with i show "\<exists>req. issued (invoke m this c) = [req]
         \<and> (\<forall>e r d err.
               axios m req = Inl (JObj e) \<and> map_of e ''response'' = Some (JObj r)
               \<and> map_of r ''data'' = Some (JObj d) \<and> map_of d ''error'' = Some err
               \<longrightarrow> outcome (invoke m this c) = Inl (Thrown err))
         \<and> (\<forall>resp. axios m req = Inr resp \<longrightarrow> outcome (invoke m this c) = Inr resp)"
    by blast
next
  fix t assume "early_throw m c = Some t"
  then have "invoke m this c = rejected this t" by (rule invoke_throws_early)
  then show "issued (invoke m this c) = []" and "outcome (invoke m this c) = Inl t"
    by simp_all
qed

text \<open>The 404 envelope of the specification, and a resolved request, on
  \<^verbatim>\<open>getArtist("abc")\<close>; recommendations with \<^verbatim>\<open>min_ = null\<close> throw before the request.\<close>

theorem error_envelope_witness:
  "early_throw (fixed_modules (Inl not_found_failure)) (GetArtist (JStr ''abc'')) = None
   \<and> early_throw (fixed_modules (Inr (JObj [(''data'', JObj [(''id'', JStr ''abc'')])])))
        (GetArtist (JStr ''abc'')) = None
   \<and> issued (invoke (fixed_modules (Inl not_found_failure)) \<lparr>access_token = JStr ''tok''\<rparr>
             (GetArtist (JStr ''abc'')))
     = [\<lparr>url = ''/artists/abc'', method = JStr ''GET'', params = Null, data = Null,
         baseURL = ''https://api.spotify.com/v1'',
         headers = [(''Authorization'', ''Bearer tok'')], reponseType = ''json''\<rparr>]
   \<and> outcome (invoke (fixed_modules (Inl not_found_failure)) \<lparr>access_token = JStr ''tok''\<rparr>
                (GetArtist (JStr ''abc'')))
     = Inl (Thrown (JObj [(''status'', JNum 404), (''message'', JStr ''not found'')]))
   \<and> outcome (invoke (fixed_modules (Inr (JObj [(''data'', JObj [(''id'', JStr ''abc'')])])))
                \<lparr>access_token = JStr ''tok''\<rparr> (GetArtist (JStr ''abc'')))
     = Inr (JObj [(''data'', JObj [(''id'', JStr ''abc'')])])
   \<and> early_throw (fixed_modules (Inr Null))
        (GetRecommendations Undefined Undefined Undefined Undefined Undefined
           Null Undefined Undefined) = Some TypeError
   \<and> outcome (invoke (fixed_modules (Inr Null)) \<lparr>access_token = JStr ''tok''\<rparr>
        (GetRecommendations Undefined Undefined Undefined Undefined Undefined
           Null Undefined Undefined)) = Inl TypeError"
proof -
  let ?cl = "\<lparr>access_token = JStr ''tok''\<rparr>"
  let ?c = "GetArtist (JStr ''abc'')"
  let ?g = "GetRecommendations Undefined Undefined Undefined Undefined Undefined
              Null Undefined Undefined"
  let ?req = "\<lparr>url = ''/artists/abc'', method = JStr ''GET'', params = Null, data = Null,
         baseURL = ''https://api.spotify.com/v1'',
         headers = [(''Authorization'', ''Bearer tok'')], reponseType = ''json''\<rparr>"
  let ?body = "JObj [(''data'', JObj [(''id'', JStr ''abc'')])]"
  have n: "early_throw m ?c = None" for m
    by (simp add: early_throw_def)
  have g: "early_throw (fixed_modules (Inr Null)) ?g = Some TypeError"
    by (simp add: early_throw_def default_arg_def)
  have i: "issued (invoke (fixed_modules r) ?cl ?c) = [?req]" for r
    by (simp add: getArtist_def issued_performRequest js_or_def)
  have a: "axios (fixed_modules r) req = r" for r req
    by (simp add: fixed_modules_def)
  have fail: "outcome (invoke (fixed_modules (Inl not_found_failure)) ?cl ?c)
                = Inl (Thrown (JObj [(''status'', JNum 404), (''message'', JStr ''not found'')]))"
    using error_envelope [of "fixed_modules (Inl not_found_failure)" ?c ?cl]
    by (simp add: n i a not_found_failure_def del: invoke.simps)
  have ok: "outcome (invoke (fixed_modules (Inr ?body)) ?cl ?c) = Inr ?body"
    using error_envelope [of "fixed_modules (Inr ?body)" ?c ?cl]
    by (simp add: n i a del: invoke.simps)
  have early: "outcome (invoke (fixed_modules (Inr Null)) ?cl ?g) = Inl TypeError"
    using error_envelope [of "fixed_modules (Inr Null)" ?g ?cl] g
    by (simp del: invoke.simps)
  from n g i fail ok early show ?thesis
    by (simp only: simp_thms)
qed

text \<open>
  Claim C7. The specification has a rejection without a response reach the caller as the
  transport's own error. In the source the handler reads \<^verbatim>\<open>e.response.data\<close> with no
  check, so on a refused connection the read of \<^verbatim>\<open>data\<close> on \<^verbatim>\<open>undefined\<close> throws and the
  caller receives a TypeError in place of the transport's error.
\<close>

theorem network_failure_throws_TypeError:
  "outcome (getArtist (fixed_modules (Inl network_failure)) \<lparr>access_token = JStr ''tok''\<rparr>
              (JStr ''abc'')) = Inl TypeError
   \<and> Inl TypeError \<noteq> (Inl (Thrown network_failure) :: js_throw + jsval)"
  by (simp add: getArtist_def performRequest_def Let_def fixed_modules_def network_failure_def
      catch_handler_def)

section \<open>The wire contract\<close>

text \<open>
  Claim C6. A call of any endpoint method that throws nothing before its request issues
  exactly one request. That request has the base URL \<^verbatim>\<open>https://api.spotify.com/v1\<close> and
  the method's path to follow it, carries the one header \<^verbatim>\<open>Authorization\<close> with
  \<^verbatim>\<open>Bearer\<close>, a space and the stored token as a string, and has the verb the method
  names, or \<^verbatim>\<open>GET\<close> when it names none. A call that throws before its request issues
  none.
\<close>

theorem request_wire_contract:
  "(early_throw m c = None \<longrightarrow>
      map (\<lambda>req. (baseURL req, url req, headers req, method req)) (issued (invoke m this c))
        = [(''https://api.spotify.com/v1'',
            endpoint_path c,
            [(''Authorization'', ''Bearer '' @ to_string (access_token this))],
            JStr (case explicit_verb c of None \<Rightarrow> ''GET'' | Some v \<Rightarrow> v))])
   \<and> (\<forall>t. early_throw m c = Some t \<longrightarrow> issued (invoke m this c) = [])"
proof (intro conjI impI allI)
  assume none: "early_throw m c = None"
  show "map (\<lambda>req. (baseURL req, url req, headers req, method req)) (issued (invoke m this c))
        = [(''https://api.spotify.com/v1'',
            endpoint_path c,
            [(''Authorization'', ''Bearer '' @ to_string (access_token this))],
            JStr (case explicit_verb c of None \<Rightarrow> ''GET'' | Some v \<Rightarrow> v))]"
    by (rule invoke_performs [OF none])
      (auto simp add: issued_performRequest js_or_def split: option.splits
        dest: explicit_verb_nonempty)
next
  fix t assume "early_throw m c = Some t"
  then have "invoke m this c = rejected this t" by (rule invoke_throws_early)
  then show "issued (invoke m this c) = []" by simp
qed

text \<open>\<^verbatim>\<open>setVolume(70, "dev1")\<close> names \<^verbatim>\<open>PUT\<close>; \<^verbatim>\<open>getArtist("abc")\<close> names no verb and
  is sent with \<^verbatim>\<open>GET\<close>; recommendations with \<^verbatim>\<open>min_ = null\<close> send nothing.\<close>

theorem request_wire_contract_witness:
  "early_throw (fixed_modules (Inr Null)) (SetVolume (JNum 70) (JStr ''dev1'')) = None
   \<and> map (\<lambda>req. (baseURL req, url req, headers req, method req))
        (issued (invoke (fixed_modules (Inr Null)) \<lparr>access_token = JStr ''tok''\<rparr>
                   (SetVolume (JNum 70) (JStr ''dev1''))))
       = [(''https://api.spotify.com/v1'', ''/me/player/volume'',
           [(''Authorization'', ''Bearer tok'')], JStr ''PUT'')]
   \<and> early_throw (fixed_modules (Inr Null)) (GetArtist (JStr ''abc'')) = None
   \<and> map (\<lambda>req. (baseURL req, url req, headers req, method req))
        (issued (invoke (fixed_modules (Inr Null)) \<lparr>access_token = JStr ''tok''\<rparr>
                   (GetArtist (JStr ''abc''))))
       = [(''https://api.spotify.com/v1'', ''/artists/abc'',
           [(''Authorization'', ''Bearer tok'')], JStr ''GET'')]
   \<and> early_throw (fixed_modules (Inr Null))
        (GetRecommendations Undefined Undefined Undefined Undefined Undefined
           Null Undefined Undefined) = Some TypeError
   \<and> issued (invoke (fixed_modules (Inr Null)) \<lparr>access_token = JStr ''tok''\<rparr>
        (GetRecommendations Undefined Undefined Undefined Undefined Undefined
           Null Undefined Undefined)) = []"
proof -
  let ?m = "fixed_modules (Inr Null)"
  let ?cl = "\<lparr>access_token = JStr ''tok''\<rparr>"
  let ?v = "SetVolume (JNum 70) (JStr ''dev1'')"
  let ?a = "GetArtist (JStr ''abc'')"
  let ?g = "GetRecommendations Undefined Undefined Undefined Undefined Undefined
              Null Undefined Undefined"
  have n: "early_throw ?m ?v = None" "early_throw ?m ?a = None"
    by (simp_all add: early_throw_def)
  have g: "early_throw ?m ?g = Some TypeError"
    by (simp add: early_throw_def default_arg_def)
  have v: "map (\<lambda>req. (baseURL req, url req, headers req, method req)) (issued (invoke ?m ?cl ?v))
       = [(''https://api.spotify.com/v1'', ''/me/player/volume'',
           [(''Authorization'', ''Bearer tok'')], JStr ''PUT'')]"
    using request_wire_contract [of ?m ?v ?cl] n(1)
    by (simp add: endpoint_path_def explicit_verb_def del: invoke.simps)
  have a: "map (\<lambda>req. (baseURL req, url req, headers req, method req)) (issued (invoke ?m ?cl ?a))
       = [(''https://api.spotify.com/v1'', ''/artists/abc'',
           [(''Authorization'', ''Bearer tok'')], JStr ''GET'')]"
    using request_wire_contract [of ?m ?a ?cl] n(2)
    by (simp add: endpoint_path_def explicit_verb_def del: invoke.simps)
  have e: "issued (invoke ?m ?cl ?g) = []"
    using request_wire_contract [of ?m ?g ?cl] g
    by (simp del: invoke.simps)
  from n g v a e show ?thesis
    by (simp only: simp_thms)
qed

text \<open>
  Claim C10. \<^verbatim>\<open>unfollowPlaylist\<close> issues one request, to
  \<^verbatim>\<open>/playlists/<playlist_id>/followers\<close> with the default verb \<^verbatim>\<open>GET\<close>, whereas
  \<^verbatim>\<open>unfollowArtistsOrUsers\<close> issues its request with \<^verbatim>\<open>DELETE\<close>.
\<close>

theorem unfollowPlaylist_uses_GET:
  "map (\<lambda>r. (url r, method r)) (issued (unfollowPlaylist m this playlist_id))
     = [(''/playlists/'' @ to_string playlist_id @ ''/followers'', JStr ''GET'')]
   \<and> map (\<lambda>r. (url r, method r)) (issued (unfollowArtistsOrUsers m this type' ids))
     = [(''/me/following'', JStr ''DELETE'')]"
  by (simp add: unfollowPlaylist_def unfollowArtistsOrUsers_def issued_performRequest js_or_def
      Let_def)

text \<open>
  Claim C2. Every endpoint method, on any arguments, issues exactly one request, whose
  verb, path, query parameters and body are those of the method's template filled with
  the arguments, each default applied where its argument is \<^verbatim>\<open>undefined\<close>. In particular
  \<^verbatim>\<open>getArtist("abc")\<close> issues \<^verbatim>\<open>GET /artists/abc\<close> with no query parameters and no
  body, and \<^verbatim>\<open>setVolume(70, "dev1")\<close> issues \<^verbatim>\<open>PUT /me/player/volume\<close> with query
  parameters \<^verbatim>\<open>volume_percent = 70\<close> and \<^verbatim>\<open>device_id = "dev1"\<close> and no body. For
  \<^verbatim>\<open>getRecommendations\<close> and \<^verbatim>\<open>searchItem\<close> the statement is for the calls that throw
  nothing before the request.
\<close>

theorem request_matches_template:
  "sent (getArtist m this (JStr ''abc'')) = [(JStr ''GET'', ''/artists/abc'', Null, Null)]
   \<and> sent (setVolume m this (JNum 70) (JStr ''dev1''))
       = [(JStr ''PUT'', ''/me/player/volume'',
           JObj [(''volume_percent'', JNum 70), (''device_id'', JStr ''dev1'')],
           Null)]
   \<and> sent (getCategories m this country locale limit offset)
       = [(JStr ''GET'', ''/browse/categories'',
           JObj [(''country'', country),
               (''locale'', locale),
               (''limit'', default_arg limit (JNum 20)),
               (''offset'', default_arg offset (JNum 0))],
           Null)]
   \<and> sent (getCategory m this category_id country locale)
       = [(JStr ''GET'', ''/browse/categories/'' @ to_string category_id,
           JObj [(''country'', country),
               (''locale'', locale)],
           Null)]
   \<and> sent (getCategoryPlaylist m this category_id country limit offset)
       = [(JStr ''GET'', ''/browse/categories/'' @ to_string category_id @ ''/playlists'',
           JObj [(''country'', country),
               (''limit'', default_arg limit (JNum 20)),
               (''offset'', default_arg offset (JNum 0))],
           Null)]
   \<and> (object_entries (default_arg min_arg (JObj [])) = Inr mn
        \<and> object_entries (default_arg max_arg (JObj [])) = Inr mx
        \<and> object_entries (default_arg target_arg (JObj [])) = Inr tg \<longrightarrow>
      sent (getRecommendations m this seed_artists seed_genres seed_tracks limit market
              min_arg max_arg target_arg)
       = [(JStr ''GET'', ''/recommendations'',
           JObj (assign_all ''target_'' tg (assign_all ''max_'' mx (assign_all ''min_'' mn
              [(''seed_artists'',
                JStr (join_comma (filter truthy [default_arg seed_artists (JArr [])]))),
               (''seed_genres'',
                JStr (join_comma (filter truthy [default_arg seed_genres (JArr [])]))),
               (''seed_tracks'',
                JStr (join_comma (filter truthy [default_arg seed_tracks (JArr [])]))),
               (''limit'', default_arg limit (JNum 20)),
               (''market'', market)]))),
           Null)])
   \<and> sent (getRecommendationGenres m this)
       = [(JStr ''GET'', ''/recommendations/available-genre-seeds'',
           Null,
           Null)]
   \<and> sent (getNewReleases m this country limit offset)
       = [(JStr ''GET'', ''/browse/new-releases'',
           JObj [(''country'', country),
               (''limit'', default_arg limit (JNum 20)),
               (''offset'', default_arg offset (JNum 0))],
           Null)]
   \<and> sent (getFeaturedPlaylists m this country locale timestamp limit offset)
       = [(JStr ''GET'', ''/browse/featured-playlists'',
           JObj [(''country'', country),
               (''locale'', locale),
               (''timestamp'', timestamp),
               (''limit'', default_arg limit (JNum 20)),
               (''offset'', default_arg offset (JNum 0))],
           Null)]
   \<and> sent (getArtists m this ids)
       = [(JStr ''GET'', ''/artists'',
           JObj [(''ids'', JStr (join_comma (filter truthy [default_arg ids (JArr [])])))],
           Null)]
   \<and> sent (getArtist m this id')
       = [(JStr ''GET'', ''/artists/'' @ to_string id',
           Null,
           Null)]
   \<and> sent (getArtistsAlbums m this id' include_groups market limit offset)
       = [(JStr ''GET'', ''/artists/'' @ to_string id' @ ''/albums'',
           JObj [(''include_groups'', JStr (join_comma (filter truthy [default_arg include_groups (JArr [JStr ''single'', JStr ''appears_on''])]))),
               (''market'', market),
               (''limit'', default_arg limit (JNum 20)),
               (''offset'', default_arg offset (JNum 0))],
           Null)]
   \<and> sent (getArtistsTopTracks m this id' market)
       = [(JStr ''GET'', ''/artists/'' @ to_string id' @ ''/top-tracks'',
           JObj [(''market'', market)],
           Null)]
   \<and> sent (getRelatedArtists m this id')
       = [(JStr ''GET'', ''/artists/'' @ to_string id' @ ''/related-artists'',
           Null,
           Null)]
   \<and> sent (getCurrentPlaying m this market)
       = [(JStr ''GET'', ''/me/player/currently-playing'',
           JObj [(''market'', market)],
           Null)]
   \<and> sent (setVolume m this volume_percent device_id)
       = [(JStr ''PUT'', ''/me/player/volume'',
           JObj [(''volume_percent'', default_arg volume_percent (JNum 50)),
               (''device_id'', device_id)],
           Null)]
   \<and> sent (getPlaybackInfo m this market)
       = [(JStr ''GET'', ''/me/player'',
           JObj [(''market'', market)],
           Null)]
   \<and> sent (skipPrevious m this device_id)
       = [(JStr ''POST'', ''/me/player/previous'',
           JObj [(''device_id'', device_id)],
           Null)]
   \<and> sent (getRecentlyPlayed m this limit after before)
       = [(JStr ''GET'', ''/me/player/recently-played'',
           JObj [(''limit'', default_arg limit (JNum 20)),
               (''after'', after),
               (''before'', before)],
           Null)]
   \<and> sent (skipNext m this device_id)
       = [(JStr ''POST'', ''/me/player/next'',
           JObj [(''device_id'', device_id)],
           Null)]
   \<and> sent (pausePlayback m this device_id)
       = [(JStr ''PUT'', ''/me/player/pause'',
           JObj [(''device_id'', device_id)],
           Null)]
   \<and> sent (setRepeatMode m this state device_id)
       = [(JStr ''PUT'', ''/me/player/repeat'',
           JObj [(''state'', default_arg state (JStr ''track'')),
               (''device_id'', device_id)],
           Null)]
   \<and> sent (startPlayback m this device_id context_uri uris offset position_ms)
       = [(JStr ''PUT'', ''/me/player/play'',
           JObj [(''device_id'', device_id)],
           JObj [(''context_uri'', context_uri),
               (''uris'', default_arg uris (JArr [])),
               (''offset'', offset),
               (''position_ms'', position_ms)])]
   \<and> sent (seekTo m this position_ms device_id)
       = [(JStr ''PUT'', ''/me/player/seek'',
           JObj [(''position_ms'', default_arg position_ms (JNum 0)),
               (''device_id'', device_id)],
           Null)]
   \<and> sent (transferPlayback m this device_ids play)
       = [(JStr ''PUT'', ''/me/player'',
           Null,
           JObj [(''device_ids'', device_ids),
               (''play'', play)])]
   \<and> sent (toggleShuffle m this state device_id)
       = [(JStr ''PUT'', ''/me/player/shuffle'',
           JObj [(''state'', state),
               (''device_id'', device_id)],
           Null)]
   \<and> sent (getAvailableDevices m this)
       = [(JStr ''GET'', ''/me/player/devices'',
           Null,
           Null)]
   \<and> sent (getUserProfile m this user_id)
       = [(JStr ''GET'', ''/users/'' @ to_string user_id,
           Null,
           Null)]
   \<and> sent (getCurrentUser m this)
       = [(JStr ''GET'', ''/me'',
           Null,
           Null)]
   \<and> sent (getFollowingState m this type' ids)
       = [(JStr ''GET'', ''/me/following/contains'',
           JObj [(''type'', type'),
               (''ids'', JStr (join_comma (filter truthy [default_arg ids (JArr [])])))],
           Null)]
   \<and> sent (checkIfUsersFollowPlaylist m this playlist_id ids)
       = [(JStr ''GET'', ''/playlists/'' @ to_string playlist_id @ ''/followers/contains'',
           JObj [(''ids'', JStr (join_comma (filter truthy [default_arg ids (JArr [])])))],
           Null)]
   \<and> sent (followUsersOrArtists m this type' ids)
       = [(JStr ''PUT'', ''/me/following'',
           JObj [(''type'', type'),
               (''ids'', JStr (join_comma (filter truthy [default_arg ids (JArr [])])))],
           JObj [(''ids'', default_arg ids (JArr []))])]
   \<and> sent (followPlaylist m this playlist_id visible)
       = [(JStr ''PUT'', ''/playlists/'' @ to_string playlist_id @ ''/followers'',
           Null,
           JObj [(''visible'', default_arg visible (JBool True))])]
   \<and> sent (getFollowedArtists m this type' limit after)
       = [(JStr ''GET'', ''/me/following'',
           JObj [(''type'', default_arg type' (JStr ''artist'')),
               (''limit'', default_arg limit (JNum 20)),
               (''after'', after)],
           Null)]
   \<and> sent (unfollowArtistsOrUsers m this type' ids)
       = [(JStr ''DELETE'', ''/me/following'',
           JObj [(''type'', type'),
               (''ids'', JStr (join_comma (filter truthy [default_arg ids (JArr [])])))],
           JObj [(''ids'', default_arg ids (JArr []))])]
   \<and> sent (unfollowPlaylist m this playlist_id)
       = [(JStr ''GET'', ''/playlists/'' @ to_string playlist_id @ ''/followers'',
           Null,
           Null)]
   \<and> (qs_escape m q = Inr escaped \<longrightarrow>
      sent (searchItem m this q type' market limit offset include_external)
       = [(JStr ''GET'', ''/search'',
           JObj [(''q'', JStr escaped),
               (''type'', JStr (join_comma (filter truthy
                            [default_arg type' (JArr [JStr ''track'', JStr ''artist''])]))),
               (''market'', market),
               (''limit'', default_arg limit (JNum 20)),
               (''offset'', default_arg offset (JNum 0)),
               (''include_external'', include_external)],
           Null)])"
  by (intro conjI impI)
    (simp_all add: sent_getRecommendations sent_searchItem sent_performRequest
      getCategories_def getCategory_def getCategoryPlaylist_def getRecommendationGenres_def
      getNewReleases_def getFeaturedPlaylists_def getArtists_def getArtist_def
      getArtistsAlbums_def getArtistsTopTracks_def getRelatedArtists_def
      getCurrentPlaying_def setVolume_def getPlaybackInfo_def skipPrevious_def
      getRecentlyPlayed_def skipNext_def pausePlayback_def setRepeatMode_def
      startPlayback_def seekTo_def transferPlayback_def toggleShuffle_def
      getAvailableDevices_def getUserProfile_def getCurrentUser_def getFollowingState_def
      checkIfUsersFollowPlaylist_def followUsersOrArtists_def followPlaylist_def
      getFollowedArtists_def unfollowArtistsOrUsers_def unfollowPlaylist_def
      Let_def js_or_def default_arg_def)

text \<open>Recommendations with one bound and a search, neither of which throws early.\<close>

theorem request_matches_template_witness:
  "object_entries (default_arg (JObj [(''popularity'', JNum 10)]) (JObj []))
     = Inr [(''popularity'', JNum 10)]
   \<and> object_entries (default_arg Undefined (JObj [])) = Inr []
   \<and> sent (getRecommendations (fixed_modules (Inr Null)) \<lparr>access_token = JStr ''tok''\<rparr>
             (JArr [JStr ''a1'']) Undefined Undefined Undefined (JStr ''DE'')
             (JObj [(''popularity'', JNum 10)]) Undefined Undefined)
       = [(JStr ''GET'', ''/recommendations'',
           JObj [(''seed_artists'', JStr ''a1''), (''seed_genres'', JStr []),
                 (''seed_tracks'', JStr []), (''limit'', JNum 20), (''market'', JStr ''DE''),
                 (''min_popularity'', JNum 10)],
           Null)]
   \<and> qs_escape (fixed_modules (Inr Null)) (JStr ''abba'') = Inr ''abba''
   \<and> sent (searchItem (fixed_modules (Inr Null)) \<lparr>access_token = JStr ''tok''\<rparr>
             (JStr ''abba'') Undefined (JStr ''DE'') Undefined Undefined Undefined)
       = [(JStr ''GET'', ''/search'',
           JObj [(''q'', JStr ''abba''), (''type'', JStr ''track,artist''),
                 (''market'', JStr ''DE''), (''limit'', JNum 20), (''offset'', JNum 0),
                 (''include_external'', Undefined)],
           Null)]"
proof -
  let ?m = "fixed_modules (Inr Null)"
  let ?cl = "\<lparr>access_token = JStr ''tok''\<rparr>"
  have e: "object_entries (default_arg (JObj [(''popularity'', JNum 10)]) (JObj []))
             = Inr [(''popularity'', JNum 10)]"
    "object_entries (default_arg Undefined (JObj [])) = Inr []"
    by (simp_all add: default_arg_def)
  have q: "qs_escape ?m (JStr ''abba'') = Inr ''abba''"
    by (simp add: fixed_modules_def)
  note t = request_matches_template [where m = ?m and this = ?cl
      and seed_artists = "JArr [JStr ''a1'']" and seed_genres = Undefined
      and seed_tracks = Undefined and limit = Undefined and market = "JStr ''DE''"
      and min_arg = "JObj [(''popularity'', JNum 10)]" and max_arg = Undefined
      and target_arg = Undefined and mn = "[(''popularity'', JNum 10)]" and mx = "[]"
      and tg = "[]" and q = "JStr ''abba''" and escaped = "''abba''"]
  have r: "sent (getRecommendations ?m ?cl (JArr [JStr ''a1'']) Undefined Undefined Undefined
             (JStr ''DE'') (JObj [(''popularity'', JNum 10)]) Undefined Undefined)
       = [(JStr ''GET'', ''/recommendations'',
           JObj [(''seed_artists'', JStr ''a1''), (''seed_genres'', JStr []),
                 (''seed_tracks'', JStr []), (''limit'', JNum 20), (''market'', JStr ''DE''),
                 (''min_popularity'', JNum 10)],
           Null)]"
    using t e by (simp add: assign_all_def default_arg_def)
  have s: "sent (searchItem ?m ?cl (JStr ''abba'') Undefined (JStr ''DE'') Undefined Undefined
                Undefined)
       = [(JStr ''GET'', ''/search'',
           JObj [(''q'', JStr ''abba''), (''type'', JStr ''track,artist''),
                 (''market'', JStr ''DE''), (''limit'', JNum 20), (''offset'', JNum 0),
                 (''include_external'', Undefined)],
           Null)]"
    using t [where type' = Undefined and offset = Undefined and include_external = Undefined] q
    by (simp add: default_arg_def)
  from e q r s show ?thesis
    by (simp only: simp_thms)
qed

section \<open>The stored token\<close>

text \<open>
  Claim C9. No endpoint method writes the access token: after a call of any method with
  any arguments, however the call settles, the client holds the token it held before.
  The field is written by the constructor, which stores its argument, or \<^verbatim>\<open>null\<close> when
  the argument is falsy.
\<close>

theorem token_unchanged:
  "access_token (this_after (invoke m this c)) = access_token this
   \<and> access_token (fst (constructor tok)) = (if truthy tok then tok else Null)"
proof
  show "access_token (this_after (invoke m this c)) = access_token this"
    by (rule invoke_cases) (simp_all add: this_after_performRequest)
  show "access_token (fst (constructor tok)) = (if truthy tok then tok else Null)"
    by (simp add: constructor_def js_or_def Let_def)
qed

section \<open>Parameter shaping\<close>

text \<open>
  Claim C3 speaks of every array-valued parameter of an endpoint method. Two of them,
  \<^verbatim>\<open>uris\<close> of \<^verbatim>\<open>startPlayback\<close> and \<^verbatim>\<open>device_ids\<close> of \<^verbatim>\<open>transferPlayback\<close>, are not query
  parameters: the method puts them in the request body, where they stay arrays. With
  \<^verbatim>\<open>uris = ["a","b"]\<close> the query of \<^verbatim>\<open>startPlayback\<close> holds the device only, and the body
  holds the array as it was passed.
\<close>

theorem body_array_not_comma_joined:
  "issued (startPlayback (fixed_modules (Inr Null)) \<lparr>access_token = JStr ''tok''\<rparr>
             (JStr ''dev1'') Undefined (JArr [JStr ''a'', JStr ''b'']) Undefined Undefined)
     = [\<lparr>url = ''/me/player/play'', method = JStr ''PUT'',
         params = JObj [(''device_id'', JStr ''dev1'')],
         data = JObj [(''context_uri'', Undefined), (''uris'', JArr [JStr ''a'', JStr ''b'']),
                      (''offset'', Undefined), (''position_ms'', Undefined)],
         baseURL = ''https://api.spotify.com/v1'',
         headers = [(''Authorization'', ''Bearer tok'')],
         reponseType = ''json''\<rparr>]
   \<and> query_param (startPlayback (fixed_modules (Inr Null)) \<lparr>access_token = JStr ''tok''\<rparr>
             (JStr ''dev1'') Undefined (JArr [JStr ''a'', JStr ''b'']) Undefined Undefined)
         ''uris'' = None
   \<and> body_field (startPlayback (fixed_modules (Inr Null)) \<lparr>access_token = JStr ''tok''\<rparr>
             (JStr ''dev1'') Undefined (JArr [JStr ''a'', JStr ''b'']) Undefined Undefined)
         ''uris'' = Some (JArr [JStr ''a'', JStr ''b''])"
  by (simp add: startPlayback_def request_simps)

text \<open>
  Claim C3, amended. For every array-valued parameter that a method sends as a query
  parameter, which are the ten arguments passed through
  \<^verbatim>\<open>[x].filter(Boolean).join(",")\<close>: when the argument is an array and the call throws
  nothing before its request, the query parameter of the issued request is the one string
  made of the elements in order with a comma between neighbours and nothing around them,
  each element written as \<^verbatim>\<open>join\<close> writes it; for an array of strings that is the strings
  themselves, comma-separated. The two array-valued parameters sent in the body, \<^verbatim>\<open>uris\<close>
  of \<^verbatim>\<open>startPlayback\<close> and \<^verbatim>\<open>device_ids\<close> of \<^verbatim>\<open>transferPlayback\<close>, reach the body as they
  were passed and are no query parameter.
\<close>

theorem array_parameter_comma_joined:
  "(early_throw m c = None \<and> (k, JArr xs) \<in> set (array_params c) \<longrightarrow>
      query_param (invoke m this c) k = Some (JStr (comma_sep (map join_elem xs)))
      \<and> (\<forall>ss. xs = map JStr ss \<longrightarrow>
            query_param (invoke m this c) k = Some (JStr (comma_sep ss))))
   \<and> sent (startPlayback m this device_id context_uri (JArr us) offset position_ms)
       = [(JStr ''PUT'', ''/me/player/play'',
           JObj [(''device_id'', device_id)],
           JObj [(''context_uri'', context_uri), (''uris'', JArr us), (''offset'', offset),
                 (''position_ms'', position_ms)])]
   \<and> sent (transferPlayback m this device_ids play)
       = [(JStr ''PUT'', ''/me/player'',
           Null,
           JObj [(''device_ids'', device_ids), (''play'', play)])]"
proof (intro conjI impI)
  assume a: "early_throw m c = None \<and> (k, JArr xs) \<in> set (array_params c)"
  then have "issued (invoke m this c) \<noteq> []" by (simp add: issues_request)
  with a array_param_value [of k "JArr xs" c m this] obtain d
    where "query_param (invoke m this c) k
             = Some (JStr (join_comma (filter truthy [default_arg (JArr xs) d])))"
    by blast
  then have q: "query_param (invoke m this c) k = Some (JStr (join_comma xs))"
    by (simp only: filter_join_array)
  show "query_param (invoke m this c) k = Some (JStr (comma_sep (map join_elem xs)))"
    by (simp add: q join_comma_elems)
  show "\<forall>ss. xs = map JStr ss \<longrightarrow>
            query_param (invoke m this c) k = Some (JStr (comma_sep ss))"
    by (simp add: q join_comma_strings)
next
  show "sent (startPlayback m this device_id context_uri (JArr us) offset position_ms)
       = [(JStr ''PUT'', ''/me/player/play'',
           JObj [(''device_id'', device_id)],
           JObj [(''context_uri'', context_uri), (''uris'', JArr us), (''offset'', offset),
                 (''position_ms'', position_ms)])]"
    by (simp add: startPlayback_def Let_def default_arg_def sent_performRequest js_or_def)
  show "sent (transferPlayback m this device_ids play)
       = [(JStr ''PUT'', ''/me/player'',
           Null,
           JObj [(''device_ids'', device_ids), (''play'', play)])]"
    by (simp add: transferPlayback_def sent_performRequest js_or_def)
qed

text \<open>The array \<^verbatim>\<open>["a","b"]\<close> as the \<^verbatim>\<open>ids\<close> of \<^verbatim>\<open>getArtists\<close> becomes \<^verbatim>\<open>"a,b"\<close>.\<close>

theorem array_parameter_comma_joined_witness:
  "early_throw (fixed_modules (Inr Null)) (GetArtists (JArr [JStr ''a'', JStr ''b''])) = None
   \<and> (''ids'', JArr [JStr ''a'', JStr ''b''])
        \<in> set (array_params (GetArtists (JArr [JStr ''a'', JStr ''b''])))
   \<and> query_param (invoke (fixed_modules (Inr Null)) \<lparr>access_token = JStr ''tok''\<rparr>
                 (GetArtists (JArr [JStr ''a'', JStr ''b''])))
     ''ids'' = Some (JStr ''a,b'')"
proof -
  let ?c = "GetArtists (JArr [JStr ''a'', JStr ''b''])"
  let ?m = "fixed_modules (Inr Null)"
  let ?cl = "\<lparr>access_token = JStr ''tok''\<rparr>"
  have n: "early_throw ?m ?c = None"
    by (simp add: early_throw_def)
  have p: "(''ids'', JArr [JStr ''a'', JStr ''b'']) \<in> set (array_params ?c)"
    by (simp add: array_params_def)
  from array_parameter_comma_joined [of ?m ?c "''ids''" "[JStr ''a'', JStr ''b'']" ?cl] n p
  have "query_param (invoke ?m ?cl ?c) ''ids'' = Some (JStr (comma_sep [''a'', ''b'']))"
    by (simp del: invoke.simps)
  then have "query_param (invoke ?m ?cl ?c) ''ids'' = Some (JStr ''a,b'')"
    by (simp del: invoke.simps)
  with n p show ?thesis
    by (simp only: simp_thms)
qed

text \<open>
  Claim C8. When a boolean, a number or a string is passed bare where an array is
  expected, the query parameter is the empty string if the value is falsy (\<^verbatim>\<open>0\<close>, the
  empty string, \<^verbatim>\<open>false\<close>), and the value's own string if it is truthy.
\<close>

theorem falsy_scalar_dropped:
  assumes "(k, x) \<in> set (array_params c)" and "issued (invoke m this c) \<noteq> []"
    and "scalar x"
  shows "(\<not> truthy x \<longrightarrow> query_param (invoke m this c) k = Some (JStr []))
       \<and> (truthy x \<longrightarrow> query_param (invoke m this c) k = Some (JStr (to_string x)))"
proof -
  from array_param_value [OF assms(1,2)] obtain d
    where "query_param (invoke m this c) k
             = Some (JStr (join_comma (filter truthy [default_arg x d])))" ..
  then have "query_param (invoke m this c) k
               = Some (JStr (if truthy x then to_string x else []))"
    by (simp only: filter_join_scalar [OF assms(3)])
  then show ?thesis by simp
qed

text \<open>The three falsy scalars as \<^verbatim>\<open>ids\<close> of \<^verbatim>\<open>getArtists\<close>, and a falsy and a truthy seed
  of \<^verbatim>\<open>getRecommendations\<close>.\<close>

theorem falsy_scalar_dropped_witness:
  "query_param (getArtists (fixed_modules (Inr Null)) \<lparr>access_token = JStr ''tok''\<rparr>
                 (JNum 0)) ''ids'' = Some (JStr [])
   \<and> query_param (getArtists (fixed_modules (Inr Null)) \<lparr>access_token = JStr ''tok''\<rparr>
                 (JStr [])) ''ids'' = Some (JStr [])
   \<and> query_param (getArtists (fixed_modules (Inr Null)) \<lparr>access_token = JStr ''tok''\<rparr>
                 (JBool False)) ''ids'' = Some (JStr [])
   \<and> query_param (getRecommendations (fixed_modules (Inr Null))
                 \<lparr>access_token = JStr ''tok''\<rparr>
                 (JNum 0) (JStr ''rock'') (JBool False) Undefined Undefined
                 Undefined Undefined Undefined) ''seed_artists'' = Some (JStr [])
   \<and> query_param (getRecommendations (fixed_modules (Inr Null))
                 \<lparr>access_token = JStr ''tok''\<rparr>
                 (JNum 0) (JStr ''rock'') (JBool False) Undefined Undefined
                 Undefined Undefined Undefined) ''seed_genres'' = Some (JStr ''rock'')"
proof -
  let ?m = "fixed_modules (Inr Null)"
  let ?cl = "\<lparr>access_token = JStr ''tok''\<rparr>"
  let ?r = "GetRecommendations (JNum 0) (JStr ''rock'') (JBool False) Undefined Undefined
              Undefined Undefined Undefined"
  have i: "\<And>x. issued (invoke ?m ?cl (GetArtists x)) \<noteq> []"
    by (simp add: getArtists_def Let_def issued_performRequest)
  have j: "issued (invoke ?m ?cl ?r) \<noteq> []"
    by (simp add: getRecommendations_def Let_def default_arg_def issued_performRequest)
  have p: "\<And>x. (''ids'', x) \<in> set (array_params (GetArtists x))"
    by (simp add: array_params_def)
  have q: "(''seed_artists'', JNum 0) \<in> set (array_params ?r)"
    "(''seed_genres'', JStr ''rock'') \<in> set (array_params ?r)"
    by (simp_all add: array_params_def)
  show ?thesis
    using falsy_scalar_dropped [OF p i, of "JNum 0"]
      falsy_scalar_dropped [OF p i, of "JStr []"]
      falsy_scalar_dropped [OF p i, of "JBool False"]
      falsy_scalar_dropped [OF q(1) j]
      falsy_scalar_dropped [OF q(2) j]
    by simp
qed

text \<open>
  Claim C4. Let each of the three bounds arguments of \<^verbatim>\<open>getRecommendations\<close> be omitted
  or be a value whose entries can be read: an omitted bound has no entries, an object has
  its properties, whose names are distinct. Then the call issues one request, in which
  every entry \<open>k\<close> with value \<open>v\<close> of \<^verbatim>\<open>min_\<close> is the query parameter \<^verbatim>\<open>min_k\<close> with value
  \<open>v\<close>, every entry of \<^verbatim>\<open>max_\<close> is \<^verbatim>\<open>max_k\<close>, and every entry of \<^verbatim>\<open>target_\<close> is
  \<^verbatim>\<open>target_k\<close>.
\<close>

theorem recommendation_bounds_flattened:
  assumes "object_entries (default_arg min_arg (JObj [])) = Inr mn"
    and "object_entries (default_arg max_arg (JObj [])) = Inr mx"
    and "object_entries (default_arg target_arg (JObj [])) = Inr tg"
    and "distinct (map fst mn)" and "distinct (map fst mx)" and "distinct (map fst tg)"
  shows "length (issued (getRecommendations m this sa sg st l mk min_arg max_arg target_arg)) = 1
       \<and> (\<forall>(k, v) \<in> set mn.
            query_param (getRecommendations m this sa sg st l mk min_arg max_arg target_arg)
              (''min_'' @ k) = Some v)
       \<and> (\<forall>(k, v) \<in> set mx.
            query_param (getRecommendations m this sa sg st l mk min_arg max_arg target_arg)
              (''max_'' @ k) = Some v)
       \<and> (\<forall>(k, v) \<in> set tg.
            query_param (getRecommendations m this sa sg st l mk min_arg max_arg target_arg)
              (''target_'' @ k) = Some v)"
proof (intro conjI ballI)
  note g = getRecommendations_entries [OF assms(1-3)]
  show "length (issued (getRecommendations m this sa sg st l mk min_arg max_arg target_arg)) = 1"
    by (simp add: g issued_performRequest)
  {
    fix e assume e: "e \<in> set mn"
    obtain k v where kv: "e = (k, v)" by (cases e)
    have "map_of (assign_all ''min_'' mn ps) (''min_'' @ k) = Some v" for ps
      by (rule map_of_assign_all_hit [OF assms(4) e [unfolded kv]])
    moreover have "map_of (assign_all ''target_'' tg (assign_all ''max_'' mx qs)) (''min_'' @ k)
                     = map_of qs (''min_'' @ k)" for qs
      by (simp add: map_of_assign_all_other)
    ultimately
    have "map_of (assign_all ''target_'' tg (assign_all ''max_'' mx (assign_all ''min_'' mn ps)))
            (''min_'' @ k) = Some v" for ps
      by (simp only:)
    then show "case e of (k, v) \<Rightarrow>
        query_param (getRecommendations m this sa sg st l mk min_arg max_arg target_arg)
                (''min_'' @ k) = Some v"
      by (simp add: kv g query_param_performRequest)
  }
  {
    fix e assume e: "e \<in> set mx"
    obtain k v where kv: "e = (k, v)" by (cases e)
    have "map_of (assign_all ''max_'' mx ps) (''max_'' @ k) = Some v" for ps
      by (rule map_of_assign_all_hit [OF assms(5) e [unfolded kv]])
    moreover have "map_of (assign_all ''target_'' tg qs) (''max_'' @ k)
                     = map_of qs (''max_'' @ k)" for qs
      by (simp add: map_of_assign_all_other)
    ultimately
    have "map_of (assign_all ''target_'' tg (assign_all ''max_'' mx ps))
            (''max_'' @ k) = Some v" for ps
      by (simp only:)
    then show "case e of (k, v) \<Rightarrow>
        query_param (getRecommendations m this sa sg st l mk min_arg max_arg target_arg)
                (''max_'' @ k) = Some v"
      by (simp add: kv g query_param_performRequest)
  }
  {
    fix e assume e: "e \<in> set tg"
    obtain k v where kv: "e = (k, v)" by (cases e)
    have "map_of (assign_all ''target_'' tg ps) (''target_'' @ k) = Some v" for ps
      by (rule map_of_assign_all_hit [OF assms(6) e [unfolded kv]])
    then show "case e of (k, v) \<Rightarrow>
        query_param (getRecommendations m this sa sg st l mk min_arg max_arg target_arg)
                (''target_'' @ k) = Some v"
      by (simp add: kv g query_param_performRequest)
  }
qed

text \<open>\<^verbatim>\<open>min_ = {popularity: 10}\<close> with the other bounds omitted gives
  \<^verbatim>\<open>min_popularity = 10\<close>, and so it does next to a \<^verbatim>\<open>max_\<close> and a \<^verbatim>\<open>target_\<close> bound.\<close>

theorem recommendation_bounds_flattened_witness:
  "object_entries (default_arg (JObj [(''popularity'', JNum 10)]) (JObj []))
     = Inr [(''popularity'', JNum 10)]
   \<and> object_entries (default_arg Undefined (JObj [])) = Inr []
   \<and> distinct (map fst [(''popularity'', JNum 10)])
   \<and> query_param (getRecommendations (fixed_modules (Inr Null)) \<lparr>access_token = JStr ''tok''\<rparr>
       (JArr [JStr ''a1'']) Undefined Undefined Undefined Undefined
       (JObj [(''popularity'', JNum 10)]) Undefined Undefined)
     ''min_popularity'' = Some (JNum 10)
   \<and> query_param (getRecommendations (fixed_modules (Inr Null)) \<lparr>access_token = JStr ''tok''\<rparr>
       (JArr [JStr ''a1'']) Undefined Undefined Undefined Undefined
       (JObj [(''popularity'', JNum 10)]) (JObj [(''tempo'', JNum 180)])
       (JObj [(''energy'', JNum 1), (''popularity'', JNum 50)]))
     ''min_popularity'' = Some (JNum 10)
   \<and> query_param (getRecommendations (fixed_modules (Inr Null)) \<lparr>access_token = JStr ''tok''\<rparr>
       (JArr [JStr ''a1'']) Undefined Undefined Undefined Undefined
       (JObj [(''popularity'', JNum 10)]) (JObj [(''tempo'', JNum 180)])
       (JObj [(''energy'', JNum 1), (''popularity'', JNum 50)]))
     ''max_tempo'' = Some (JNum 180)
   \<and> query_param (getRecommendations (fixed_modules (Inr Null)) \<lparr>access_token = JStr ''tok''\<rparr>
       (JArr [JStr ''a1'']) Undefined Undefined Undefined Undefined
       (JObj [(''popularity'', JNum 10)]) (JObj [(''tempo'', JNum 180)])
       (JObj [(''energy'', JNum 1), (''popularity'', JNum 50)]))
     ''target_popularity'' = Some (JNum 50)"
proof -
  let ?m = "fixed_modules (Inr Null)"
  let ?cl = "\<lparr>access_token = JStr ''tok''\<rparr>"
  have e: "object_entries (default_arg (JObj ps) (JObj [])) = Inr ps" for ps
    by (simp add: default_arg_def)
  have u: "object_entries (default_arg Undefined (JObj [])) = Inr []"
    by (simp add: default_arg_def)
  have d: "distinct (map fst [(''popularity'', JNum 10)])"
    "distinct (map fst [(''tempo'', JNum 180)])"
    "distinct (map fst [(''energy'', JNum 1), (''popularity'', JNum 50)])"
    "distinct (map fst ([] :: (string \<times> jsval) list))"
    by simp_all
  have one: "query_param (getRecommendations ?m ?cl (JArr [JStr ''a1'']) Undefined Undefined
               Undefined Undefined (JObj [(''popularity'', JNum 10)]) Undefined Undefined)
             ''min_popularity'' = Some (JNum 10)"
    using recommendation_bounds_flattened [OF e u u d(1) d(4) d(4), of ?m ?cl
        "JArr [JStr ''a1'']" Undefined Undefined Undefined Undefined]
    by simp
  have three: "query_param (getRecommendations ?m ?cl (JArr [JStr ''a1'']) Undefined Undefined
                 Undefined Undefined (JObj [(''popularity'', JNum 10)])
                 (JObj [(''tempo'', JNum 180)])
                 (JObj [(''energy'', JNum 1), (''popularity'', JNum 50)]))
               ''min_popularity'' = Some (JNum 10)
     \<and> query_param (getRecommendations ?m ?cl (JArr [JStr ''a1'']) Undefined Undefined
                 Undefined Undefined (JObj [(''popularity'', JNum 10)])
                 (JObj [(''tempo'', JNum 180)])
                 (JObj [(''energy'', JNum 1), (''popularity'', JNum 50)]))
               ''max_tempo'' = Some (JNum 180)
     \<and> query_param (getRecommendations ?m ?cl (JArr [JStr ''a1'']) Undefined Undefined
                 Undefined Undefined (JObj [(''popularity'', JNum 10)])
                 (JObj [(''tempo'', JNum 180)])
                 (JObj [(''energy'', JNum 1), (''popularity'', JNum 50)]))
               ''target_popularity'' = Some (JNum 50)"
    using recommendation_bounds_flattened [OF e e e d(1) d(2) d(3), of ?m ?cl
        "JArr [JStr ''a1'']" Undefined Undefined Undefined Undefined]
    by simp
  from e [of "[(''popularity'', JNum 10)]"] u d(1) one three show ?thesis
    by (simp only: simp_thms)
qed

text \<open>
  Claim C5. An argument that has a default and is omitted (\<^verbatim>\<open>undefined\<close>) reaches the
  request as its default: \<^verbatim>\<open>limit\<close> as 20 and \<^verbatim>\<open>offset\<close> as 0 in \<^verbatim>\<open>getCategories\<close>,
  \<^verbatim>\<open>getCategoryPlaylist\<close>, \<^verbatim>\<open>getNewReleases\<close>, \<^verbatim>\<open>getFeaturedPlaylists\<close>,
  \<^verbatim>\<open>getRecommendations\<close> (which has no offset), \<^verbatim>\<open>searchItem\<close> and \<^verbatim>\<open>getArtistsAlbums\<close>,
  and likewise every other default of the source: the empty array for \<^verbatim>\<open>ids\<close>, \<^verbatim>\<open>uris\<close>
  and the seeds, \<^verbatim>\<open>["single", "appears_on"]\<close>, \<^verbatim>\<open>["track", "artist"]\<close>, volume 50, state
  \<^verbatim>\<open>track\<close>, position 0, type \<^verbatim>\<open>artist\<close> and \<^verbatim>\<open>visible = true\<close>. For the two methods
  that can throw before the request, the statement is about the request when one is
  issued.
\<close>

theorem defaults_applied:
  "query_param (getCategories m this country locale Undefined offset) ''limit'' = Some (JNum 20)
   \<and> query_param (getCategories m this country locale limit Undefined) ''offset'' = Some (JNum 0)
   \<and> query_param (getCategoryPlaylist m this category_id country Undefined offset) ''limit''
       = Some (JNum 20)
   \<and> query_param (getCategoryPlaylist m this category_id country limit Undefined) ''offset''
       = Some (JNum 0)
   \<and> query_param (getNewReleases m this country Undefined offset) ''limit'' = Some (JNum 20)
   \<and> query_param (getNewReleases m this country limit Undefined) ''offset'' = Some (JNum 0)
   \<and> query_param (getFeaturedPlaylists m this country locale timestamp Undefined offset)
         ''limit'' = Some (JNum 20)
   \<and> query_param (getFeaturedPlaylists m this country locale timestamp limit Undefined)
         ''offset'' = Some (JNum 0)
   \<and> (issued (getRecommendations m this seed_artists seed_genres seed_tracks Undefined market
                 mn mx tg) \<noteq> [] \<longrightarrow>
       query_param (getRecommendations m this seed_artists seed_genres seed_tracks Undefined
                      market mn mx tg) ''limit'' = Some (JNum 20))
   \<and> issued (getRecommendations m this Undefined Undefined Undefined Undefined Undefined
                Undefined Undefined Undefined)
       = [\<lparr>url = ''/recommendations'', method = JStr ''GET'',
           params = JObj [(''seed_artists'', JStr []), (''seed_genres'', JStr []),
                          (''seed_tracks'', JStr []), (''limit'', JNum 20),
                          (''market'', Undefined)],
           data = Null,
           baseURL = ''https://api.spotify.com/v1'',
           headers = [(''Authorization'', ''Bearer '' @ to_string (access_token this))],
           reponseType = ''json''\<rparr>]
   \<and> (qs_escape m q = Inr escaped \<longrightarrow>
        query_param (searchItem m this q Undefined market Undefined Undefined include_external)
          ''type'' = Some (JStr ''track,artist'')
      \<and> query_param (searchItem m this q type' market Undefined offset include_external)
          ''limit'' = Some (JNum 20)
      \<and> query_param (searchItem m this q type' market limit Undefined include_external)
          ''offset'' = Some (JNum 0))
   \<and> query_param (getArtists m this Undefined) ''ids'' = Some (JStr [])
   \<and> query_param (getArtistsAlbums m this id' Undefined market limit offset) ''include_groups''
       = Some (JStr ''single,appears_on'')
   \<and> query_param (getArtistsAlbums m this id' include_groups market Undefined offset) ''limit''
       = Some (JNum 20)
   \<and> query_param (getArtistsAlbums m this id' include_groups market limit Undefined) ''offset''
       = Some (JNum 0)
   \<and> query_param (setVolume m this Undefined device_id) ''volume_percent'' = Some (JNum 50)
   \<and> query_param (getRecentlyPlayed m this Undefined after before) ''limit'' = Some (JNum 20)
   \<and> query_param (setRepeatMode m this Undefined device_id) ''state'' = Some (JStr ''track'')
   \<and> body_field (startPlayback m this device_id context_uri Undefined offset position_ms)
         ''uris'' = Some (JArr [])
   \<and> query_param (seekTo m this Undefined device_id) ''position_ms'' = Some (JNum 0)
   \<and> query_param (getFollowingState m this type' Undefined) ''ids'' = Some (JStr [])
   \<and> query_param (checkIfUsersFollowPlaylist m this playlist_id Undefined) ''ids''
       = Some (JStr [])
   \<and> query_param (followUsersOrArtists m this type' Undefined) ''ids'' = Some (JStr [])
   \<and> body_field (followUsersOrArtists m this type' Undefined) ''ids'' = Some (JArr [])
   \<and> body_field (followPlaylist m this playlist_id Undefined) ''visible'' = Some (JBool True)
   \<and> query_param (getFollowedArtists m this Undefined limit after) ''type''
       = Some (JStr ''artist'')
   \<and> query_param (getFollowedArtists m this type' Undefined after) ''limit'' = Some (JNum 20)
   \<and> query_param (unfollowArtistsOrUsers m this type' Undefined) ''ids'' = Some (JStr [])
   \<and> body_field (unfollowArtistsOrUsers m this type' Undefined) ''ids'' = Some (JArr [])"
  by (intro conjI impI)
    (simp_all add: getRecommendations_limit_default getRecommendations_all_omitted
      searchItem_defaults getCategories_def getCategoryPlaylist_def getNewReleases_def
      getFeaturedPlaylists_def getArtists_def getArtistsAlbums_def setVolume_def
      getRecentlyPlayed_def setRepeatMode_def startPlayback_def seekTo_def
      getFollowingState_def checkIfUsersFollowPlaylist_def followUsersOrArtists_def
      followPlaylist_def getFollowedArtists_def unfollowArtistsOrUsers_def default_simps)

text \<open>Recommendations with one bound and a search, both with \<^verbatim>\<open>limit\<close> omitted.\<close>

theorem defaults_applied_witness:
  "issued (getRecommendations (fixed_modules (Inr Null)) \<lparr>access_token = JStr ''tok''\<rparr>
             (JArr [JStr ''a1'']) Undefined Undefined Undefined Undefined
             (JObj [(''popularity'', JNum 10)]) Undefined Undefined) \<noteq> []
   \<and> query_param (getRecommendations (fixed_modules (Inr Null))
             \<lparr>access_token = JStr ''tok''\<rparr>
             (JArr [JStr ''a1'']) Undefined Undefined Undefined Undefined
             (JObj [(''popularity'', JNum 10)]) Undefined Undefined) ''limit'' = Some (JNum 20)
   \<and> qs_escape (fixed_modules (Inr Null)) (JStr ''abba'') = Inr ''abba''
   \<and> query_param (searchItem (fixed_modules (Inr Null)) \<lparr>access_token = JStr ''tok''\<rparr>
             (JStr ''abba'') Undefined Undefined Undefined Undefined Undefined) ''limit''
       = Some (JNum 20)
   \<and> query_param (searchItem (fixed_modules (Inr Null)) \<lparr>access_token = JStr ''tok''\<rparr>
             (JStr ''abba'') Undefined Undefined Undefined Undefined Undefined) ''offset''
       = Some (JNum 0)
   \<and> query_param (searchItem (fixed_modules (Inr Null)) \<lparr>access_token = JStr ''tok''\<rparr>
             (JStr ''abba'') Undefined Undefined Undefined Undefined Undefined) ''type''
       = Some (JStr ''track,artist'')"
proof -
  let ?m = "fixed_modules (Inr Null)"
  let ?cl = "\<lparr>access_token = JStr ''tok''\<rparr>"
  have i: "issued (getRecommendations ?m ?cl (JArr [JStr ''a1'']) Undefined Undefined Undefined
             Undefined (JObj [(''popularity'', JNum 10)]) Undefined Undefined) \<noteq> []"
    by (simp add: getRecommendations_def Let_def default_arg_def issued_performRequest)
  have e: "qs_escape ?m (JStr ''abba'') = Inr ''abba''"
    by (simp add: fixed_modules_def)
  show ?thesis
    using i e
      defaults_applied [of ?m ?cl _ _ _ _ _ _ "JArr [JStr ''a1'']" Undefined Undefined Undefined
        "JObj [(''popularity'', JNum 10)]" Undefined Undefined "JStr ''abba''" "''abba''"
        Undefined Undefined Undefined]
    by simp
qed

end
